theory Spec2Isabelle
  imports Main
begin

text \<open>
  The utility functions of the two CSI drivers of the repository, package \<^verbatim>\<open>utils\<close> of
  sds-local-volume-csi and package \<^verbatim>\<open>utils\<close> of sds-lvm-csi, as functions of HOL, and
  what they guarantee: which node is chosen for a new volume, how the record of a
  logical volume is created and deleted, how its status is awaited, and how its
  finalizer is released. Several functions exist in both packages under one name; the
  model of the one from sds-local-volume-csi ends in \<open>_local\<close>, the one from sds-lvm-csi
  in \<open>_lvm\<close>.
\<close>

section \<open>Quantities and the size comparison\<close>

text \<open>
  A \<^verbatim>\<open>resource.Quantity\<close> (k8s.io/apimachinery) enters the code below only through
  \<^verbatim>\<open>Value()\<close>, an \<^verbatim>\<open>int64\<close> number of bytes, through \<^verbatim>\<open>Sub\<close> and through
  \<^verbatim>\<open>resource.NewQuantity\<close>. A quantity is modelled by that integer, and \<^verbatim>\<open>Sub\<close>, which
  is exact on quantities, by the subtraction of integers. No function below does
  \<^verbatim>\<open>int64\<close> arithmetic on a value (only comparisons and assignments), so no wrap-around
  is written out.
\<close>

type_synonym quantity = int

text \<open>
  \<^verbatim>\<open>AreSizesEqualWithinDelta\<close> converts the three \<^verbatim>\<open>int64\<close> values to \<^verbatim>\<open>float64\<close>,
  subtracts and compares. A \<^verbatim>\<open>float64\<close> has a 53-bit significand; the conversion of an
  integer and the subtraction of two floats both round the exact result to the nearest
  representable value, ties to the even significand (IEEE 754, the Go specification's
  rule for conversions). Every \<^verbatim>\<open>float64\<close> that can arise here is an integer below
  \<open>2 ^ 65\<close> in magnitude, so a \<^verbatim>\<open>float64\<close> is modelled by the integer it denotes and
  rounding by \<open>float64\<close> below.

  \<open>float64_shift m\<close> is the number of low bits of \<open>m\<close> that do not fit in 53 bits.
\<close>

function float64_shift :: "nat \<Rightarrow> nat" where
  "float64_shift m = (if m < 2 ^ 53 then 0 else Suc (float64_shift (m div 2)))"
  by pat_completeness auto
termination
  by (relation "measure (\<lambda>m. m)") auto

declare float64_shift.simps [simp del]

definition float64 :: "int \<Rightarrow> int" where
  "float64 x =
     (let m = nat \<bar>x\<bar>;
          e = float64_shift m;
          q = m div 2 ^ e;
          r = m mod 2 ^ e;
          q' = (if 2 ^ e < 2 * r \<or> (2 * r = 2 ^ e \<and> odd q) then q + 1 else q)
      in sgn x * int (q' * 2 ^ e))"

text \<open>
  \<^verbatim>\<open>
  func AreSizesEqualWithinDelta(leftSize, rightSize, allowedDelta resource.Quantity) bool {
      leftSizeFloat := float64(leftSize.Value())
      rightSizeFloat := float64(rightSize.Value())
      return math.Abs(leftSizeFloat-rightSizeFloat) < float64(allowedDelta.Value())
  }
  \<close>
  The function has the same text in both packages
  (sds-local-volume-csi and sds-lvm-csi).
\<close>

definition AreSizesEqualWithinDelta :: "quantity \<Rightarrow> quantity \<Rightarrow> quantity \<Rightarrow> bool" where
  "AreSizesEqualWithinDelta leftSize rightSize allowedDelta =
     (let leftSizeFloat = float64 leftSize;
          rightSizeFloat = float64 rightSize
      in \<bar>float64 (leftSizeFloat - rightSizeFloat)\<bar> < float64 allowedDelta)"


section \<open>Records of the declarative store\<close>

text \<open>
  The record types come from the api packages (\<^verbatim>\<open>snc\<close> for sds-local-volume-csi,
  \<^verbatim>\<open>v1alpha1\<close> for sds-lvm-csi). Only the fields that the functions below read or
  write are kept; a field keeps its Go name behind a prefix that tells the records
  apart. \<^verbatim>\<open>Status.Nodes\<close> is kept as the list of the nodes' names.
\<close>

record LVMVolumeGroupThinPoolStatus =
  tp_Name :: string
  tp_AvailableSpace :: quantity

text \<open>\<^verbatim>\<open>snc.LVMVolumeGroup\<close>, as sds-local-volume-csi reads it.\<close>

record LVMVolumeGroup =
  lvg_Name :: string
  lvg_VGFree :: quantity
  lvg_Nodes :: "string list"
  lvg_ThinPools :: "LVMVolumeGroupThinPoolStatus list"

text \<open>
  \<^verbatim>\<open>v1alpha1.LvmVolumeGroup\<close>, as sds-lvm-csi reads it: the two sizes are strings that
  \<^verbatim>\<open>resource.ParseQuantity\<close> parses.
\<close>

record LvmVolumeGroup =
  vg_Name :: string
  vg_VGSize :: string
  vg_AllocatedSize :: string
  vg_Nodes :: "string list"

record LVMLogicalVolumeSpec =
  ActualLVNameOnTheNode :: string
  Type :: string
  Size :: string
  LVMVolumeGroupName :: string
  Thin :: "string option"
  Thick :: "bool option"

record LVMLogicalVolumeStatus =
  Phase :: string
  Reason :: string
  ActualSize :: quantity

text \<open>
  \<^verbatim>\<open>LVMLogicalVolume\<close>: \<open>Status\<close> is a pointer (\<open>None\<close> is \<^verbatim>\<open>nil\<close>), and so is
  \<open>DeletionTimestamp\<close>. \<^verbatim>\<open>TypeMeta\<close> and the empty \<^verbatim>\<open>OwnerReferences\<close> that
  \<^verbatim>\<open>CreateLVMLogicalVolume\<close> fills in are read by no function here and are left out.
\<close>

record LVMLogicalVolume =
  Name :: string
  Finalizers :: "string list"
  DeletionTimestamp :: "nat option"
  Spec :: LVMLogicalVolumeSpec
  Status :: "LVMLogicalVolumeStatus option"

section \<open>Errors\<close>

text \<open>
  An error of the store carries its \<^verbatim>\<open>metav1.StatusReason\<close>. \<^verbatim>\<open>fmt.Errorf\<close> is kept
  as its format string, its operands other than the one of \<^verbatim>\<open>%w\<close>, and the operand
  of \<^verbatim>\<open>%w\<close>: \<open>Some e\<close> when it is the error \<open>e\<close>, which the result then wraps, and
  \<open>None\<close> when it is \<^verbatim>\<open>nil\<close> (or the format has no \<^verbatim>\<open>%w\<close>), where the result wraps
  nothing and the text reads \<^verbatim>\<open>%!w(<nil>)\<close>.
\<close>

datatype status_reason =
    StatusReasonAlreadyExists
  | StatusReasonConflict
  | StatusReasonNotFound
  | StatusReasonUnknown

datatype fmt_arg =
    S string
  | D int
  | V_lvg LVMVolumeGroup
  | V_params "string \<rightharpoonup> string"

datatype error =
    StatusError status_reason
  | ContextCanceled
  | DeadlineExceeded
  | QuantityParseError string
  | Errorf string "fmt_arg list" "error option"

text \<open>\<^verbatim>\<open>errors.Unwrap\<close>.\<close>

fun Unwrap :: "error \<Rightarrow> error option" where
  "Unwrap (Errorf f args w) = w"
| "Unwrap e = None"

text \<open>
  \<^verbatim>\<open>kerrors.ReasonForError\<close> looks for a status error along the chain of wrapped
  errors; \<^verbatim>\<open>kerrors.IsConflict\<close> and \<^verbatim>\<open>kerrors.IsAlreadyExists\<close> compare the reason.
\<close>

fun ReasonForError :: "error \<Rightarrow> status_reason" where
  "ReasonForError (StatusError r) = r"
| "ReasonForError (Errorf f args (Some e)) = ReasonForError e"
| "ReasonForError e = StatusReasonUnknown"

definition IsConflict :: "error \<Rightarrow> bool" where
  "IsConflict err = (ReasonForError err = StatusReasonConflict)"

definition IsAlreadyExists :: "error \<Rightarrow> bool" where
  "IsAlreadyExists err = (ReasonForError err = StatusReasonAlreadyExists)"

text \<open>
  A function that indexes \<^verbatim>\<open>lvg.Status.Nodes[0]\<close> panics when the list is empty.
\<close>

datatype 'a outcome = IndexOutOfRange | Returns 'a

section \<open>Constants\<close>

definition LLVStatusCreated :: string where
  "LLVStatusCreated = ''Created''"

definition LLVStatusFailed :: string where
  "LLVStatusFailed = ''Failed''"

text \<open>\<^verbatim>\<open>KubernetesAPIRequestLimit\<close> of sds-local-volume-csi.\<close>

definition KubernetesAPIRequestLimit :: nat where
  "KubernetesAPIRequestLimit = 3"

text \<open>
  \<^verbatim>\<open>KubernetesAPIRequestTimeout\<close> of sds-local-volume-csi is slept as
  \<^verbatim>\<open>KubernetesAPIRequestTimeout * time.Second\<close>. A duration is a number of nanoseconds.
\<close>

definition KubernetesAPIRequestTimeout :: nat where
  "KubernetesAPIRequestTimeout = 1"

definition Second :: nat where
  "Second = 1000000000"

definition Millisecond :: nat where
  "Millisecond = 1000000"

definition SDSLocalVolumeCSIFinalizer :: string where
  "SDSLocalVolumeCSIFinalizer = ''storage.deckhouse.io/sds-local-volume-csi''"

text \<open>\<^verbatim>\<open>KubernetesApiRequestLimit\<close> of sds-lvm-csi.\<close>

definition KubernetesApiRequestLimit :: nat where
  "KubernetesApiRequestLimit = 3"

text \<open>
  \<^verbatim>\<open>KubernetesApiRequestTimeout\<close> of sds-lvm-csi is slept as it is,
  \<^verbatim>\<open>time.Sleep(KubernetesApiRequestTimeout)\<close>: one nanosecond.
\<close>

definition KubernetesApiRequestTimeout :: nat where
  "KubernetesApiRequestTimeout = 1"

text \<open>
  Modelled from the spec: the constant \<^verbatim>\<open>internal.LVMTypeThick\<close> of the package
  \<^verbatim>\<open>sds-local-volume-csi/internal\<close>, which is not among the sources. The spec names
  the two volume types \<open>Thin\<close> and \<open>Thick\<close>.
\<close>

definition LVMTypeThick :: string where
  "LVMTypeThick = ''Thick''"

text \<open>
  Modelled from the spec: the constant \<^verbatim>\<open>internal.LVMTypeThin\<close> of the same package;
  \<^verbatim>\<open>LLVTypeThin\<close> of the package utils is \<^verbatim>\<open>"Thin"\<close> as well.
\<close>

definition LVMTypeThin :: string where
  "LVMTypeThin = ''Thin''"

section \<open>Capacity: the node with the most free space\<close>

text \<open>
  \<^verbatim>\<open>GetLVMThinPoolFreeSpace\<close> (sds-local-volume-csi): the first thin pool of that name,
  or an error beside the zero quantity.
\<close>

definition GetLVMThinPoolFreeSpace :: "LVMVolumeGroup \<Rightarrow> string \<Rightarrow> quantity \<times> error option" where
  "GetLVMThinPoolFreeSpace lvg thinPoolName =
     (case find (\<lambda>thinPool. tp_Name thinPool = thinPoolName) (lvg_ThinPools lvg) of
        None \<Rightarrow>
          (0, Some (Errorf ''[GetLVMThinPoolFreeSpace] thin pool %s not found in lvg %+v''
                      [S thinPoolName, V_lvg lvg] None))
      | Some storagePoolThinPool \<Rightarrow> (tp_AvailableSpace storagePoolThinPool, None))"

text \<open>
  \<^verbatim>\<open>GetNodeWithMaxFreeSpace\<close> (sds-local-volume-csi). The loop over \<^verbatim>\<open>lvgs\<close> carries
  the named results \<open>nodeName\<close> and \<open>freeSpace\<close> and the local \<open>maxFreeSpace\<close>;
  all three start at their zero values. The \<^verbatim>\<open>switch\<close> has no default: for any other
  \<open>lvmType\<close> the quantity \<open>freeSpace\<close> keeps its value.
\<close>

fun GetNodeWithMaxFreeSpace_loop ::
  "LVMVolumeGroup list \<Rightarrow> (string \<rightharpoonup> string) \<Rightarrow> string \<Rightarrow> string \<Rightarrow> quantity \<Rightarrow> int
     \<Rightarrow> (string \<times> quantity \<times> error option) outcome" where
  "GetNodeWithMaxFreeSpace_loop [] storageClassLVGParametersMap lvmType nodeName freeSpace maxFreeSpace =
     Returns (nodeName, maxFreeSpace, None)"
| "GetNodeWithMaxFreeSpace_loop (lvg # rest) storageClassLVGParametersMap lvmType nodeName freeSpace maxFreeSpace =
     (case (if lvmType = LVMTypeThick then Inr (lvg_VGFree lvg)
            else if lvmType = LVMTypeThin then
              (case storageClassLVGParametersMap (lvg_Name lvg) of
                 None \<Rightarrow>
                   Inl (freeSpace,
                        Errorf ''thin pool name for lvg %s not found in storage class parameters: %+v''
                          [S (lvg_Name lvg), V_params storageClassLVGParametersMap] None)
               | Some thinPoolName \<Rightarrow>
                   (case GetLVMThinPoolFreeSpace lvg thinPoolName of
                      (freeSpace', Some err) \<Rightarrow>
                        Inl (freeSpace',
                             Errorf ''get free space for thin pool %s in lvg %s: %w''
                               [S thinPoolName, S (lvg_Name lvg)] (Some err))
                    | (freeSpace', None) \<Rightarrow> Inr freeSpace'))
            else Inr freeSpace) of
        Inl (freeSpace', err) \<Rightarrow> Returns ('''', freeSpace', Some err)
      | Inr freeSpace' \<Rightarrow>
          if freeSpace' > maxFreeSpace then
            (case lvg_Nodes lvg of
               [] \<Rightarrow> IndexOutOfRange
             | node # _ \<Rightarrow>
                 GetNodeWithMaxFreeSpace_loop rest storageClassLVGParametersMap lvmType
                   node freeSpace' freeSpace')
          else
            GetNodeWithMaxFreeSpace_loop rest storageClassLVGParametersMap lvmType
              nodeName freeSpace' maxFreeSpace)"

definition GetNodeWithMaxFreeSpace ::
  "LVMVolumeGroup list \<Rightarrow> (string \<rightharpoonup> string) \<Rightarrow> string
     \<Rightarrow> (string \<times> quantity \<times> error option) outcome" where
  "GetNodeWithMaxFreeSpace lvgs storageClassLVGParametersMap lvmType =
     GetNodeWithMaxFreeSpace_loop lvgs storageClassLVGParametersMap lvmType '''' 0 0"

text \<open>
  \<^verbatim>\<open>GetLVMVolumeGroupFreeSpace\<close> (sds-lvm-csi). \<^verbatim>\<open>resource.ParseQuantity\<close> belongs to
  the Kubernetes library and is the parameter \<open>ParseQuantity\<close>.
\<close>

definition GetLVMVolumeGroupFreeSpace_lvm ::
  "(string \<Rightarrow> error + quantity) \<Rightarrow> LvmVolumeGroup \<Rightarrow> quantity \<times> error option" where
  "GetLVMVolumeGroupFreeSpace_lvm ParseQuantity lvg =
     (case ParseQuantity (vg_VGSize lvg) of
        Inl err \<Rightarrow>
          (0, Some (Errorf ''parse size vgSize (%s): %w'' [S (vg_VGSize lvg)] (Some err)))
      | Inr vgSize \<Rightarrow>
          (case ParseQuantity (vg_AllocatedSize lvg) of
             Inl err \<Rightarrow>
               (0, Some (Errorf ''parse size vgSize (%s): %w'' [S (vg_AllocatedSize lvg)] (Some err)))
           | Inr allocatedSize \<Rightarrow> (vgSize - allocatedSize, None)))"

section \<open>The store, the context and time\<close>

text \<open>
  The client \<^verbatim>\<open>kc\<close>, the context \<^verbatim>\<open>ctx\<close> and the clock are outside the program. A
  function that uses them takes the list of the calls made so far and returns it
  extended: each request to the store and each sleep (a duration in nanoseconds) is one
  \<open>call\<close>. The answer of the store to a request, and whether the context is done, may
  depend on everything that happened before, so each is a function of that list.
  \<open>ctxErr\<close> is \<^verbatim>\<open>ctx.Err()\<close>: \<open>None\<close> as long as \<^verbatim>\<open>ctx.Done()\<close> is open.
  Calls to the logger are left out.
\<close>

datatype call =
    Create LVMLogicalVolume
  | Get string string
  | Update LVMLogicalVolume
  | Delete LVMLogicalVolume
  | List
  | Sleep nat

record client =
  kcCreate :: "call list \<Rightarrow> LVMLogicalVolume \<Rightarrow> error option"
  kcGet :: "call list \<Rightarrow> string \<Rightarrow> string \<Rightarrow> error + LVMLogicalVolume"
  kcUpdate :: "call list \<Rightarrow> LVMLogicalVolume \<Rightarrow> error option"
  kcDelete :: "call list \<Rightarrow> LVMLogicalVolume \<Rightarrow> error option"
  kcList :: "call list \<Rightarrow> error + LvmVolumeGroup list"
  ctxErr :: "call list \<Rightarrow> error option"

subsection \<open>sds-lvm-csi: GetNodeMaxFreeVGSize\<close>

text \<open>
  The first loop of \<^verbatim>\<open>GetNodeMaxFreeVGSize\<close>: up to \<^verbatim>\<open>KubernetesApiRequestLimit\<close>
  calls of \<^verbatim>\<open>kc.List\<close>, leaving at the first that succeeds. It yields the variable
  \<open>err\<close> and the items of the list.
\<close>

function GetNodeMaxFreeVGSize_list ::
  "client \<Rightarrow> nat \<Rightarrow> error option \<Rightarrow> call list \<Rightarrow> error option \<times> LvmVolumeGroup list \<times> call list" where
  "GetNodeMaxFreeVGSize_list kc attempt err h =
     (if attempt < KubernetesApiRequestLimit then
        (case kcList kc h of
           Inr items \<Rightarrow> (None, items, h @ [List])
         | Inl err' \<Rightarrow>
             GetNodeMaxFreeVGSize_list kc (attempt + 1) (Some err')
               (h @ [List, Sleep KubernetesApiRequestTimeout]))
      else (err, [], h))"
  by pat_completeness auto
termination
  by (relation "measure (\<lambda>(kc, attempt, err, h). KubernetesApiRequestLimit - attempt)") auto

declare GetNodeMaxFreeVGSize_list.simps [simp del]

text \<open>The second loop, over the items, with \<open>nodeName\<close> and \<open>maxFreeSpace\<close>.\<close>

fun GetNodeMaxFreeVGSize_loop ::
  "(string \<Rightarrow> error + quantity) \<Rightarrow> LvmVolumeGroup list \<Rightarrow> string \<Rightarrow> int
     \<Rightarrow> (string \<times> quantity \<times> error option) outcome" where
  "GetNodeMaxFreeVGSize_loop ParseQuantity [] nodeName maxFreeSpace =
     Returns (nodeName, maxFreeSpace, None)"
| "GetNodeMaxFreeVGSize_loop ParseQuantity (lvg # rest) nodeName maxFreeSpace =
     (case GetLVMVolumeGroupFreeSpace_lvm ParseQuantity lvg of
        (freeSpace, Some err) \<Rightarrow>
          Returns ('''', freeSpace,
                   Some (Errorf ''get free space for lvg %s: %w'' [S (vg_Name lvg)] (Some err)))
      | (freeSpace, None) \<Rightarrow>
          if freeSpace > maxFreeSpace then
            (case vg_Nodes lvg of
               [] \<Rightarrow> IndexOutOfRange
             | node # _ \<Rightarrow> GetNodeMaxFreeVGSize_loop ParseQuantity rest node freeSpace)
          else GetNodeMaxFreeVGSize_loop ParseQuantity rest nodeName maxFreeSpace)"

definition GetNodeMaxFreeVGSize ::
  "client \<Rightarrow> (string \<Rightarrow> error + quantity) \<Rightarrow> call list
     \<Rightarrow> (string \<times> quantity \<times> error option) outcome \<times> call list" where
  "GetNodeMaxFreeVGSize kc ParseQuantity h =
     (case GetNodeMaxFreeVGSize_list kc 0 None h of
        (Some err, items, h') \<Rightarrow>
          (Returns ('''', 0,
                    Some (Errorf ''after %d attempts of getting LvmVolumeGroups, last error: %w''
                            [D (int KubernetesApiRequestLimit)] (Some err))),
           h')
      | (None, items, h') \<Rightarrow> (GetNodeMaxFreeVGSize_loop ParseQuantity items '''' 0, h'))"

section \<open>Creating and deleting the record\<close>

subsection \<open>sds-local-volume-csi: CreateLVMLogicalVolume\<close>

text \<open>One call of \<^verbatim>\<open>kc.Create\<close>; the record and the error of that call are returned.\<close>

definition CreateLVMLogicalVolume_local ::
  "client \<Rightarrow> string \<Rightarrow> LVMLogicalVolumeSpec \<Rightarrow> call list
     \<Rightarrow> (LVMLogicalVolume option \<times> error option) \<times> call list" where
  "CreateLVMLogicalVolume_local kc name lvmLogicalVolumeSpec h =
     (let llv = \<lparr>Name = name,
                 Finalizers = [SDSLocalVolumeCSIFinalizer],
                 DeletionTimestamp = None,
                 Spec = lvmLogicalVolumeSpec,
                 Status = None\<rparr>;
          err = kcCreate kc h llv
      in ((Some llv, err), h @ [Create llv]))"

subsection \<open>sds-lvm-csi: CreateLVMLogicalVolume\<close>

text \<open>
  The retry loop either returns from the function (\<open>Inl\<close> of the results) or runs out
  of attempts and leaves the variable \<open>err\<close> (\<open>Inr\<close>).
\<close>

function CreateLVMLogicalVolume_lvm_loop ::
  "client \<Rightarrow> LVMLogicalVolume \<Rightarrow> nat \<Rightarrow> error option \<Rightarrow> call list
     \<Rightarrow> ((LVMLogicalVolume option \<times> error option) + error option) \<times> call list" where
  "CreateLVMLogicalVolume_lvm_loop kc llv attempt err h =
     (if attempt < KubernetesApiRequestLimit then
        (case kcCreate kc h llv of
           None \<Rightarrow> (Inl (Some llv, None), h @ [Create llv])
         | Some err' \<Rightarrow>
             if IsAlreadyExists err' then (Inl (None, Some err'), h @ [Create llv])
             else CreateLVMLogicalVolume_lvm_loop kc llv (attempt + 1) (Some err')
                    (h @ [Create llv, Sleep KubernetesApiRequestTimeout]))
      else (Inr err, h))"
  by pat_completeness auto
termination
  by (relation "measure (\<lambda>(kc, llv, attempt, err, h). KubernetesApiRequestLimit - attempt)") auto

declare CreateLVMLogicalVolume_lvm_loop.simps [simp del]

definition CreateLVMLogicalVolume_lvm ::
  "client \<Rightarrow> string \<Rightarrow> LVMLogicalVolumeSpec \<Rightarrow> call list
     \<Rightarrow> (LVMLogicalVolume option \<times> error option) \<times> call list" where
  "CreateLVMLogicalVolume_lvm kc name LVMLogicalVolumeSpec h =
     (let llv = \<lparr>Name = name,
                 Finalizers = [],
                 DeletionTimestamp = None,
                 Spec = LVMLogicalVolumeSpec,
                 Status = None\<rparr>
      in case CreateLVMLogicalVolume_lvm_loop kc llv 0 None h of
           (Inl results, h') \<Rightarrow> (results, h')
         | (Inr err, h') \<Rightarrow>
             if err \<noteq> None then
               ((None,
                 Some (Errorf ''after %d attempts of creating LVMLogicalVolume %s, last error: %w''
                         [D (int KubernetesApiRequestLimit), S name] err)),
                h')
             else ((Some llv, None), h'))"

subsection \<open>sds-lvm-csi: DeleteLVMLogicalVolume\<close>

text \<open>
  In the loop \<^verbatim>\<open>err := kc.Delete(ctx, llv)\<close> declares a new \<open>err\<close> in the scope of the
  loop body. The loop therefore yields only whether it returned \<^verbatim>\<open>nil\<close> from the
  function (\<open>True\<close>) or ran out of attempts (\<open>False\<close>); the \<open>err\<close> declared by
  \<^verbatim>\<open>var err error\<close> at the top of the function is never assigned.
\<close>

function DeleteLVMLogicalVolume_lvm_loop ::
  "client \<Rightarrow> LVMLogicalVolume \<Rightarrow> nat \<Rightarrow> call list \<Rightarrow> bool \<times> call list" where
  "DeleteLVMLogicalVolume_lvm_loop kc llv attempt h =
     (if attempt < KubernetesApiRequestLimit then
        (case kcDelete kc h llv of
           None \<Rightarrow> (True, h @ [Delete llv])
         | Some err' \<Rightarrow>
             DeleteLVMLogicalVolume_lvm_loop kc llv (attempt + 1)
               (h @ [Delete llv, Sleep KubernetesApiRequestTimeout]))
      else (False, h))"
  by pat_completeness auto
termination
  by (relation "measure (\<lambda>(kc, llv, attempt, h). KubernetesApiRequestLimit - attempt)") auto

declare DeleteLVMLogicalVolume_lvm_loop.simps [simp del]

definition DeleteLVMLogicalVolume_lvm ::
  "client \<Rightarrow> string \<Rightarrow> call list \<Rightarrow> error option \<times> call list" where
  "DeleteLVMLogicalVolume_lvm kc LVMLogicalVolumeName h =
     (let err = (None :: error option);
          llv = \<lparr>Name = LVMLogicalVolumeName,
                 Finalizers = [],
                 DeletionTimestamp = None,
                 Spec = \<lparr>ActualLVNameOnTheNode = '''', Type = '''', Size = '''',
                         LVMVolumeGroupName = '''', Thin = None, Thick = None\<rparr>,
                 Status = None\<rparr>
      in case DeleteLVMLogicalVolume_lvm_loop kc llv 0 h of
           (True, h') \<Rightarrow> (None, h')
         | (False, h') \<Rightarrow>
             if err \<noteq> None then
               (Some (Errorf ''after %d attempts of deleting LVMLogicalVolume %s, last error: %w''
                        [D (int KubernetesApiRequestLimit), S LVMLogicalVolumeName] err),
                h')
             else (None, h'))"

section \<open>Waiting for the status of the record\<close>

subsection \<open>sds-local-volume-csi\<close>

text \<open>\<^verbatim>\<open>GetLVMLogicalVolume\<close>: one call of \<^verbatim>\<open>kc.Get\<close>.\<close>

definition GetLVMLogicalVolume_local ::
  "client \<Rightarrow> string \<Rightarrow> string \<Rightarrow> call list \<Rightarrow> (error + LVMLogicalVolume) \<times> call list" where
  "GetLVMLogicalVolume_local kc lvmLogicalVolumeName namespace h =
     (kcGet kc h lvmLogicalVolumeName namespace, h @ [Get lvmLogicalVolumeName namespace])"

text \<open>
  \<^verbatim>\<open>WaitForStatusUpdate\<close> is a \<^verbatim>\<open>for\<close> without a condition: it may run forever, and
  then the model has no value (\<open>None\<close>). A value \<open>Some ((attemptCounter, err), h)\<close>
  is what the function returns together with the calls made. The variable
  \<open>sizeEquals\<close> is kept only where it decides; the logger's use of it is left out.
\<close>

partial_function (option) WaitForStatusUpdate_local_loop ::
  "client \<Rightarrow> string \<Rightarrow> string \<Rightarrow> quantity \<Rightarrow> quantity \<Rightarrow> nat \<Rightarrow> call list
     \<Rightarrow> ((nat \<times> error option) \<times> call list) option" where
  "WaitForStatusUpdate_local_loop kc lvmLogicalVolumeName namespace llvSize delta attemptCounter h =
     (let attemptCounter = attemptCounter + 1 in
      case ctxErr kc h of
        Some ctxError \<Rightarrow> Some ((attemptCounter, Some ctxError), h)
      | None \<Rightarrow>
          (case GetLVMLogicalVolume_local kc lvmLogicalVolumeName namespace
                  (h @ [Sleep (500 * Millisecond)]) of
             (Inl err, h') \<Rightarrow> Some ((attemptCounter, Some err), h')
           | (Inr llv, h') \<Rightarrow>
               (case Status llv of
                  None \<Rightarrow>
                    WaitForStatusUpdate_local_loop kc lvmLogicalVolumeName namespace llvSize delta
                      attemptCounter h'
                | Some status \<Rightarrow>
                    let sizeEquals = AreSizesEqualWithinDelta llvSize (ActualSize status) delta in
                    if DeletionTimestamp llv \<noteq> None then
                      Some ((attemptCounter,
                             Some (Errorf ''failed to create LVM logical volume on node for LVMLogicalVolume %s, reason: LVMLogicalVolume is being deleted''
                                     [S lvmLogicalVolumeName] None)),
                            h')
                    else if Phase status = LLVStatusFailed then
                      Some ((attemptCounter,
                             Some (Errorf ''failed to create LVM logical volume on node for LVMLogicalVolume %s, reason: %s''
                                     [S lvmLogicalVolumeName, S (Reason status)] None)),
                            h')
                    else if Phase status = LLVStatusCreated then
                      (if sizeEquals then Some ((attemptCounter, None), h')
                       else
                         WaitForStatusUpdate_local_loop kc lvmLogicalVolumeName namespace llvSize
                           delta attemptCounter h')
                    else
                      WaitForStatusUpdate_local_loop kc lvmLogicalVolumeName namespace llvSize delta
                        attemptCounter h')))"

definition WaitForStatusUpdate_local ::
  "client \<Rightarrow> string \<Rightarrow> string \<Rightarrow> quantity \<Rightarrow> quantity \<Rightarrow> call list
     \<Rightarrow> ((nat \<times> error option) \<times> call list) option" where
  "WaitForStatusUpdate_local kc lvmLogicalVolumeName namespace llvSize delta h =
     WaitForStatusUpdate_local_loop kc lvmLogicalVolumeName namespace llvSize delta 0 h"

subsection \<open>sds-lvm-csi\<close>

text \<open>
  \<^verbatim>\<open>GetLVMLogicalVolume\<close>: up to \<^verbatim>\<open>KubernetesApiRequestLimit\<close> calls of \<^verbatim>\<open>kc.Get\<close>; after
  the last the error is wrapped.
\<close>

function GetLVMLogicalVolume_lvm_loop ::
  "client \<Rightarrow> string \<Rightarrow> string \<Rightarrow> nat \<Rightarrow> error option \<Rightarrow> call list
     \<Rightarrow> (error + LVMLogicalVolume) \<times> call list" where
  "GetLVMLogicalVolume_lvm_loop kc LVMLogicalVolumeName namespace attempt err h =
     (if attempt < KubernetesApiRequestLimit then
        (case kcGet kc h LVMLogicalVolumeName namespace of
           Inr llv \<Rightarrow> (Inr llv, h @ [Get LVMLogicalVolumeName namespace])
         | Inl err' \<Rightarrow>
             GetLVMLogicalVolume_lvm_loop kc LVMLogicalVolumeName namespace (attempt + 1) (Some err')
               (h @ [Get LVMLogicalVolumeName namespace, Sleep KubernetesApiRequestTimeout]))
      else
        (Inl (Errorf ''after %d attempts of getting LVMLogicalVolume %s in namespace %s, last error: %w''
                [D (int KubernetesApiRequestLimit), S LVMLogicalVolumeName, S namespace] err),
         h))"
  by pat_completeness auto
termination
  by (relation "measure (\<lambda>(kc, name, namespace, attempt, err, h). KubernetesApiRequestLimit - attempt)")
    auto

declare GetLVMLogicalVolume_lvm_loop.simps [simp del]

definition GetLVMLogicalVolume_lvm ::
  "client \<Rightarrow> string \<Rightarrow> string \<Rightarrow> call list \<Rightarrow> (error + LVMLogicalVolume) \<times> call list" where
  "GetLVMLogicalVolume_lvm kc LVMLogicalVolumeName namespace h =
     GetLVMLogicalVolume_lvm_loop kc LVMLogicalVolumeName namespace 0 None h"

text \<open>
  \<^verbatim>\<open>WaitForStatusUpdate\<close> of sds-lvm-csi waits in a \<^verbatim>\<open>select\<close> for the context or for
  \<^verbatim>\<open>time.After(500 * time.Millisecond)\<close>, whichever comes first: \<open>ctxErr\<close> is read
  after that wait. The function does not look at \<open>DeletionTimestamp\<close>.
\<close>

partial_function (option) WaitForStatusUpdate_lvm_loop ::
  "client \<Rightarrow> string \<Rightarrow> string \<Rightarrow> quantity \<Rightarrow> quantity \<Rightarrow> nat \<Rightarrow> call list
     \<Rightarrow> ((nat \<times> error option) \<times> call list) option" where
  "WaitForStatusUpdate_lvm_loop kc LVMLogicalVolumeName namespace llvSize delta attemptCounter h =
     (let attemptCounter = attemptCounter + 1;
          h1 = h @ [Sleep (500 * Millisecond)] in
      case ctxErr kc h1 of
        Some ctxError \<Rightarrow> Some ((attemptCounter, Some ctxError), h1)
      | None \<Rightarrow>
          (case GetLVMLogicalVolume_lvm kc LVMLogicalVolumeName namespace h1 of
             (Inl err, h') \<Rightarrow> Some ((attemptCounter, Some err), h')
           | (Inr llv, h') \<Rightarrow>
               (case Status llv of
                  None \<Rightarrow>
                    WaitForStatusUpdate_lvm_loop kc LVMLogicalVolumeName namespace llvSize delta
                      attemptCounter h'
                | Some status \<Rightarrow>
                    let sizeEquals = AreSizesEqualWithinDelta llvSize (ActualSize status) delta in
                    if Phase status = LLVStatusFailed then
                      Some ((attemptCounter,
                             Some (Errorf ''LVM Logical Volume %s failed, reason: %s''
                                     [S LVMLogicalVolumeName, S (Reason status)] None)),
                            h')
                    else if Phase status = LLVStatusCreated \<and> sizeEquals then
                      Some ((attemptCounter, None), h')
                    else
                      WaitForStatusUpdate_lvm_loop kc LVMLogicalVolumeName namespace llvSize delta
                        attemptCounter h')))"

definition WaitForStatusUpdate_lvm ::
  "client \<Rightarrow> string \<Rightarrow> string \<Rightarrow> quantity \<Rightarrow> quantity \<Rightarrow> call list
     \<Rightarrow> ((nat \<times> error option) \<times> call list) option" where
  "WaitForStatusUpdate_lvm kc LVMLogicalVolumeName namespace llvSize delta h =
     WaitForStatusUpdate_lvm_loop kc LVMLogicalVolumeName namespace llvSize delta 0 h"

section \<open>Releasing the finalizer\<close>

text \<open>
  The inner loop of \<^verbatim>\<open>removeLLVFinalizerIfExist\<close>: \<^verbatim>\<open>slices.Delete\<close> at the first index
  whose value is the finalizer, and whether there was one.
\<close>

fun deleteFinalizer :: "string list \<Rightarrow> string \<Rightarrow> string list \<times> bool" where
  "deleteFinalizer [] finalizer = ([], False)"
| "deleteFinalizer (val # rest) finalizer =
     (if val = finalizer then (rest, True)
      else (case deleteFinalizer rest finalizer of (rest', removed) \<Rightarrow> (val # rest', removed)))"

text \<open>
  \<^verbatim>\<open>removeLLVFinalizerIfExist\<close> writes through the pointer \<open>llv\<close>; the model returns the
  record behind it beside the two results and the calls.
\<close>

function removeLLVFinalizerIfExist_loop ::
  "client \<Rightarrow> LVMLogicalVolume \<Rightarrow> string \<Rightarrow> nat \<Rightarrow> call list
     \<Rightarrow> (bool \<times> error option) \<times> LVMLogicalVolume \<times> call list" where
  "removeLLVFinalizerIfExist_loop kc llv finalizer attempt h =
     (if attempt < KubernetesAPIRequestLimit then
        (case deleteFinalizer (Finalizers llv) finalizer of
           (finalizers, False) \<Rightarrow> ((False, None), llv, h)
         | (finalizers, True) \<Rightarrow>
             (let llv1 = llv\<lparr>Finalizers := finalizers\<rparr>;
                  h1 = h @ [Update llv1]
              in case kcUpdate kc h llv1 of
                   None \<Rightarrow> ((True, None), llv1, h1)
                 | Some err \<Rightarrow>
                     if \<not> IsConflict err then
                       ((False,
                         Some (Errorf ''[removeLLVFinalizerIfExist] error updating LVMLogicalVolume %s: %w''
                                 [S (Name llv1)] (Some err))),
                        llv1, h1)
                     else if attempt < KubernetesAPIRequestLimit - 1 then
                       (case ctxErr kc h1 of
                          Some ctxError \<Rightarrow> ((False, Some ctxError), llv1, h1)
                        | None \<Rightarrow>
                            (case GetLVMLogicalVolume_local kc (Name llv1) ''''
                                    (h1 @ [Sleep (KubernetesAPIRequestTimeout * Second)]) of
                               (Inl getErr, h2) \<Rightarrow>
                                 ((False,
                                   Some (Errorf ''[removeLLVFinalizerIfExist] error getting LVMLogicalVolume %s after update conflict: %w''
                                           [S (Name llv1)] (Some getErr))),
                                  llv1, h2)
                             | (Inr freshLLV, h2) \<Rightarrow>
                                 removeLLVFinalizerIfExist_loop kc freshLLV finalizer (attempt + 1) h2))
                     else removeLLVFinalizerIfExist_loop kc llv1 finalizer (attempt + 1) h1))
      else
        ((False,
          Some (Errorf ''after %d attempts of removing finalizer %s from LVMLogicalVolume %s, last error: %w''
                  [D (int KubernetesAPIRequestLimit), S finalizer, S (Name llv)] None)),
         llv, h))"
  by pat_completeness auto
termination
  by (relation "measure (\<lambda>(kc, llv, finalizer, attempt, h). KubernetesAPIRequestLimit - attempt)")
    auto

declare removeLLVFinalizerIfExist_loop.simps [simp del]

definition removeLLVFinalizerIfExist ::
  "client \<Rightarrow> LVMLogicalVolume \<Rightarrow> string \<Rightarrow> call list
     \<Rightarrow> (bool \<times> error option) \<times> LVMLogicalVolume \<times> call list" where
  "removeLLVFinalizerIfExist kc llv finalizer h =
     removeLLVFinalizerIfExist_loop kc llv finalizer 0 h"

section \<open>Counting calls\<close>

text \<open>
  What a store answers is stated below by the number of requests it has seen:
  \<open>fetches h\<close> is the number of \<^verbatim>\<open>kc.Get\<close> calls in \<open>h\<close> and \<open>updates h\<close> the number
  of \<^verbatim>\<open>kc.Update\<close> calls.
\<close>

fun isGet :: "call \<Rightarrow> bool" where
  "isGet (Get name namespace) = True"
| "isGet c = False"

fun isUpdate :: "call \<Rightarrow> bool" where
  "isUpdate (Update llv) = True"
| "isUpdate c = False"

definition fetches :: "call list \<Rightarrow> nat" where
  "fetches h = length (filter isGet h)"

definition updates :: "call list \<Rightarrow> nat" where
  "updates h = length (filter isUpdate h)"

section \<open>Example records and stores\<close>

text \<open>Concrete inputs on which the theorems below are instantiated.\<close>

text \<open>Three volume groups with 5Gi, 12Gi and 12Gi free, on three nodes.\<close>

definition lvgs_5_12_12 :: "LVMVolumeGroup list" where
  "lvgs_5_12_12 =
     [\<lparr>lvg_Name = ''lvg-a'', lvg_VGFree = 5368709120, lvg_Nodes = [''node1''], lvg_ThinPools = []\<rparr>,
      \<lparr>lvg_Name = ''lvg-b'', lvg_VGFree = 12884901888, lvg_Nodes = [''node2''], lvg_ThinPools = []\<rparr>,
      \<lparr>lvg_Name = ''lvg-c'', lvg_VGFree = 12884901888, lvg_Nodes = [''node3''], lvg_ThinPools = []\<rparr>]"

text \<open>Two volume groups without free space; the second names no node.\<close>

definition lvgs_full :: "LVMVolumeGroup list" where
  "lvgs_full =
     [\<lparr>lvg_Name = ''lvg-a'', lvg_VGFree = 0, lvg_Nodes = [''node1''], lvg_ThinPools = []\<rparr>,
      \<lparr>lvg_Name = ''lvg-b'', lvg_VGFree = 0, lvg_Nodes = [], lvg_ThinPools = []\<rparr>]"

text \<open>
  Two volume groups with a thin pool \<open>pool1\<close> of 5Gi and of 12Gi available, and the
  storage class parameters that name that pool for both.
\<close>

definition lvgs_thin :: "LVMVolumeGroup list" where
  "lvgs_thin =
     [\<lparr>lvg_Name = ''lvg-a'', lvg_VGFree = 0, lvg_Nodes = [''node1''],
       lvg_ThinPools = [\<lparr>tp_Name = ''pool1'', tp_AvailableSpace = 5368709120\<rparr>]\<rparr>,
      \<lparr>lvg_Name = ''lvg-b'', lvg_VGFree = 0, lvg_Nodes = [''node2''],
       lvg_ThinPools = [\<lparr>tp_Name = ''pool0'', tp_AvailableSpace = 0\<rparr>,
                        \<lparr>tp_Name = ''pool1'', tp_AvailableSpace = 12884901888\<rparr>]\<rparr>]"

definition params_thin :: "string \<rightharpoonup> string" where
  "params_thin = [''lvg-a'' \<mapsto> ''pool1'', ''lvg-b'' \<mapsto> ''pool1'']"

text \<open>
  One volume group without free space, and two of them; a group with 12Gi free followed
  by a group with 5Gi free that names no node.
\<close>

definition lvgs_one_full :: "LVMVolumeGroup list" where
  "lvgs_one_full =
     [\<lparr>lvg_Name = ''lvg-a'', lvg_VGFree = 0, lvg_Nodes = [''node1''], lvg_ThinPools = []\<rparr>]"

definition lvgs_two_full :: "LVMVolumeGroup list" where
  "lvgs_two_full =
     [\<lparr>lvg_Name = ''lvg-a'', lvg_VGFree = 0, lvg_Nodes = [''node1''], lvg_ThinPools = []\<rparr>,
      \<lparr>lvg_Name = ''lvg-b'', lvg_VGFree = 0, lvg_Nodes = [''node2''], lvg_ThinPools = []\<rparr>]"

definition lvgs_12_5 :: "LVMVolumeGroup list" where
  "lvgs_12_5 =
     [\<lparr>lvg_Name = ''lvg-a'', lvg_VGFree = 12884901888, lvg_Nodes = [''node1''], lvg_ThinPools = []\<rparr>,
      \<lparr>lvg_Name = ''lvg-b'', lvg_VGFree = 5368709120, lvg_Nodes = [], lvg_ThinPools = []\<rparr>]"

definition vgs_one_full :: "LvmVolumeGroup list" where
  "vgs_one_full =
     [\<lparr>vg_Name = ''vg-a'', vg_VGSize = ''20Gi'', vg_AllocatedSize = ''20Gi'',
       vg_Nodes = [''node1'']\<rparr>]"

text \<open>A stand-in for \<^verbatim>\<open>resource.ParseQuantity\<close> on the three strings used below.\<close>

definition parse_example :: "string \<Rightarrow> error + quantity" where
  "parse_example s =
     (if s = ''20Gi'' then Inr 21474836480
      else if s = ''15Gi'' then Inr 16106127360
      else if s = ''8Gi'' then Inr 8589934592
      else Inl (QuantityParseError s))"

text \<open>The same three groups for sds-lvm-csi: 20Gi - 15Gi, 20Gi - 8Gi and 20Gi - 8Gi.\<close>

definition vgs_5_12_12 :: "LvmVolumeGroup list" where
  "vgs_5_12_12 =
     [\<lparr>vg_Name = ''vg-a'', vg_VGSize = ''20Gi'', vg_AllocatedSize = ''15Gi'', vg_Nodes = [''node1'']\<rparr>,
      \<lparr>vg_Name = ''vg-b'', vg_VGSize = ''20Gi'', vg_AllocatedSize = ''8Gi'', vg_Nodes = [''node2'']\<rparr>,
      \<lparr>vg_Name = ''vg-c'', vg_VGSize = ''20Gi'', vg_AllocatedSize = ''8Gi'', vg_Nodes = [''node3'']\<rparr>]"

definition vgs_full :: "LvmVolumeGroup list" where
  "vgs_full =
     [\<lparr>vg_Name = ''vg-a'', vg_VGSize = ''20Gi'', vg_AllocatedSize = ''20Gi'', vg_Nodes = []\<rparr>]"

text \<open>
  A store whose first \<^verbatim>\<open>List\<close> fails and whose later ones answer with \<open>items\<close>.
\<close>

definition listing_store :: "LvmVolumeGroup list \<Rightarrow> client" where
  "listing_store items =
     \<lparr>kcCreate = (\<lambda>h llv. None),
      kcGet = (\<lambda>h name namespace. Inl (StatusError StatusReasonNotFound)),
      kcUpdate = (\<lambda>h llv. None),
      kcDelete = (\<lambda>h llv. None),
      kcList = (\<lambda>h. if h = [] then Inl (StatusError StatusReasonUnknown) else Inr items),
      ctxErr = (\<lambda>h. None)\<rparr>"

text \<open>A spec and records named \<open>pvc-1\<close> that differ in what the theorems look at.\<close>

definition spec_example :: LVMLogicalVolumeSpec where
  "spec_example =
     \<lparr>ActualLVNameOnTheNode = ''pvc-1'', Type = ''Thick'', Size = ''10Gi'',
      LVMVolumeGroupName = ''lvg-b'', Thin = None, Thick = None\<rparr>"

definition llv_example ::
  "string list \<Rightarrow> nat option \<Rightarrow> LVMLogicalVolumeStatus option \<Rightarrow> LVMLogicalVolume" where
  "llv_example finalizers deletionTimestamp status =
     \<lparr>Name = ''pvc-1'', Finalizers = finalizers, DeletionTimestamp = deletionTimestamp,
      Spec = spec_example, Status = status\<rparr>"

text \<open>The record that \<^verbatim>\<open>DeleteLVMLogicalVolume\<close> of sds-lvm-csi sends: a name only.\<close>

definition llv_named :: "string \<Rightarrow> LVMLogicalVolume" where
  "llv_named name =
     \<lparr>Name = name, Finalizers = [], DeletionTimestamp = None,
      Spec = \<lparr>ActualLVNameOnTheNode = '''', Type = '''', Size = '''',
              LVMVolumeGroupName = '''', Thin = None, Thick = None\<rparr>,
      Status = None\<rparr>"

text \<open>
  A store that answers every \<^verbatim>\<open>Create\<close>, \<^verbatim>\<open>Update\<close>, \<^verbatim>\<open>Delete\<close> and \<^verbatim>\<open>List\<close> with the
  error \<open>e\<close> and every \<^verbatim>\<open>Get\<close> with the record \<open>llv\<close>.
\<close>

definition refusing_store :: "error \<Rightarrow> LVMLogicalVolume \<Rightarrow> client" where
  "refusing_store e llv =
     \<lparr>kcCreate = (\<lambda>h x. Some e),
      kcGet = (\<lambda>h name namespace. Inr llv),
      kcUpdate = (\<lambda>h x. Some e),
      kcDelete = (\<lambda>h x. Some e),
      kcList = (\<lambda>h. Inl e),
      ctxErr = (\<lambda>h. None)\<rparr>"

text \<open>
  A store that answers the first \<open>k\<close> calls of \<^verbatim>\<open>Update\<close> with a conflict and the later
  ones with success, and every \<^verbatim>\<open>Get\<close> with the record \<open>llv\<close>.
\<close>

definition conflicting_store :: "nat \<Rightarrow> LVMLogicalVolume \<Rightarrow> client" where
  "conflicting_store k llv =
     \<lparr>kcCreate = (\<lambda>h x. None),
      kcGet = (\<lambda>h name namespace. Inr llv),
      kcUpdate = (\<lambda>h x. if updates h < k then Some (StatusError StatusReasonConflict) else None),
      kcDelete = (\<lambda>h x. None),
      kcList = (\<lambda>h. Inr []),
      ctxErr = (\<lambda>h. None)\<rparr>"

text \<open>
  A store that answers the \<open>j\<close>-th \<^verbatim>\<open>Get\<close> with the \<open>j\<close>-th record of \<open>recs\<close>, and
  with not-found once the records are used up.
\<close>

definition polling_store :: "LVMLogicalVolume list \<Rightarrow> client" where
  "polling_store recs =
     \<lparr>kcCreate = (\<lambda>h x. None),
      kcGet = (\<lambda>h name namespace.
                 if fetches h < length recs then Inr (recs ! fetches h)
                 else Inl (StatusError StatusReasonNotFound)),
      kcUpdate = (\<lambda>h x. None),
      kcDelete = (\<lambda>h x. None),
      kcList = (\<lambda>h. Inr []),
      ctxErr = (\<lambda>h. None)\<rparr>"

text \<open>
  Records as the poller may fetch them one after the other: without status, pending,
  created with 5Gi, created with 10Gi.
\<close>

definition recs_until_created :: "LVMLogicalVolume list" where
  "recs_until_created =
     [llv_example [SDSLocalVolumeCSIFinalizer] None None,
      llv_example [SDSLocalVolumeCSIFinalizer] None
        (Some \<lparr>Phase = ''Pending'', Reason = '''', ActualSize = 0\<rparr>),
      llv_example [SDSLocalVolumeCSIFinalizer] None
        (Some \<lparr>Phase = ''Created'', Reason = '''', ActualSize = 5368709120\<rparr>),
      llv_example [SDSLocalVolumeCSIFinalizer] None
        (Some \<lparr>Phase = ''Created'', Reason = '''', ActualSize = 10737418240\<rparr>)]"

text \<open>Pending, then failed.\<close>

definition recs_until_failed :: "LVMLogicalVolume list" where
  "recs_until_failed =
     [llv_example [SDSLocalVolumeCSIFinalizer] None
        (Some \<lparr>Phase = ''Pending'', Reason = '''', ActualSize = 0\<rparr>),
      llv_example [SDSLocalVolumeCSIFinalizer] None
        (Some \<lparr>Phase = ''Failed'', Reason = ''no space left'', ActualSize = 0\<rparr>)]"

text \<open>Records on which deletion has been requested (at time 7).\<close>

definition llv_failed_deleting :: LVMLogicalVolume where
  "llv_failed_deleting =
     llv_example [SDSLocalVolumeCSIFinalizer] (Some 7)
       (Some \<lparr>Phase = ''Failed'', Reason = ''no space left'', ActualSize = 0\<rparr>)"

definition llv_created_deleting :: LVMLogicalVolume where
  "llv_created_deleting =
     llv_example [SDSLocalVolumeCSIFinalizer] (Some 7)
       (Some \<lparr>Phase = ''Created'', Reason = '''', ActualSize = 10737418240\<rparr>)"

definition llv_unreported_deleting :: LVMLogicalVolume where
  "llv_unreported_deleting = llv_example [SDSLocalVolumeCSIFinalizer] (Some 7) None"

definition llv_created :: LVMLogicalVolume where
  "llv_created =
     llv_example [SDSLocalVolumeCSIFinalizer] None
       (Some \<lparr>Phase = ''Created'', Reason = '''', ActualSize = 10737418240\<rparr>)"

text \<open>
  A record that reports itself created with no bytes, to be compared with a request of
  \<open>2 ^ 55 + 5\<close> bytes.
\<close>

definition llv_created_empty :: LVMLogicalVolume where
  "llv_created_empty =
     llv_example [SDSLocalVolumeCSIFinalizer] None
       (Some \<lparr>Phase = ''Created'', Reason = '''', ActualSize = 0\<rparr>)"

section \<open>Properties of the size comparison\<close>

lemma float64_shift_small: "m < 2 ^ 53 \<Longrightarrow> float64_shift m = 0"
  by (simp add: float64_shift.simps)

lemma float64_shift_large:
  "2 ^ 53 \<le> m \<Longrightarrow> 1 \<le> float64_shift m \<and> 2 ^ 52 \<le> m div 2 ^ float64_shift m"
proof (induction m rule: float64_shift.induct)
  case (1 m)
  have unfold: "float64_shift m = Suc (float64_shift (m div 2))"
    using "1.prems" by (subst float64_shift.simps) simp
  have half: "(2::nat) ^ 52 \<le> m div 2"
    using "1.prems" by simp
  show ?case
  proof (cases "m div 2 < 2 ^ 53")
    case True
    then have "float64_shift (m div 2) = 0"
      by (rule float64_shift_small)
    with unfold half show ?thesis by simp
  next
    case False
    then have "2 ^ 53 \<le> m div 2" by simp
    with "1.IH" "1.prems"
    have "1 \<le> float64_shift (m div 2) \<and> 2 ^ 52 \<le> m div 2 div 2 ^ float64_shift (m div 2)"
      by simp
    then show ?thesis
      by (simp add: unfold div_mult2_eq)
  qed
qed

text \<open>An integer of magnitude at most \<open>2 ^ 53\<close> is a \<^verbatim>\<open>float64\<close>.\<close>

lemma float64_exact:
  assumes "\<bar>x\<bar> \<le> 2 ^ 53"
  shows "float64 x = x"
proof (cases "\<bar>x\<bar> < 2 ^ 53")
  case True
  then have "nat \<bar>x\<bar> < 2 ^ 53" by simp
  then have "float64_shift (nat \<bar>x\<bar>) = 0"
    by (rule float64_shift_small)
  then have "float64 x = sgn x * \<bar>x\<bar>"
    by (simp add: float64_def Let_def)
  then show ?thesis by (simp add: mult_sgn_abs)
next
  case False
  with assms have ax: "\<bar>x\<bar> = 2 ^ 53" by simp
  then have m: "nat \<bar>x\<bar> = 2 ^ 53" by simp
  have "float64_shift (2 ^ 53) = Suc (float64_shift (2 ^ 53 div 2))"
    by (subst float64_shift.simps) simp
  also have "float64_shift (2 ^ 53 div 2) = 0"
    by (rule float64_shift_small) simp
  finally have e: "float64_shift (2 ^ 53) = 1" by simp
  have "float64 x = sgn x * 2 ^ 53"
    unfolding float64_def m e Let_def by simp
  also have "\<dots> = sgn x * \<bar>x\<bar>" using ax by simp
  finally show ?thesis by (simp add: mult_sgn_abs)
qed

text \<open>Rounding never takes a magnitude of \<open>2 ^ 53\<close> or more below \<open>2 ^ 53\<close>.\<close>

lemma float64_large:
  assumes "2 ^ 53 \<le> \<bar>x\<bar>"
  shows "2 ^ 53 \<le> \<bar>float64 x\<bar>"
proof -
  define m where "m = nat \<bar>x\<bar>"
  define e where "e = float64_shift m"
  define q where "q = m div 2 ^ e"
  define q' where
    "q' = (if 2 ^ e < 2 * (m mod 2 ^ e) \<or> (2 * (m mod 2 ^ e) = 2 ^ e \<and> odd q) then q + 1 else q)"
  have "2 ^ 53 \<le> m" using assms by (simp add: m_def le_nat_iff)
  then have e1: "1 \<le> e" and q52: "2 ^ 52 \<le> q"
    using float64_shift_large [of m] by (simp_all add: e_def q_def)
  have "q \<le> q'" by (simp add: q'_def)
  with q52 have "2 ^ 52 \<le> q'" by simp
  moreover have "(2::nat) ^ 1 \<le> 2 ^ e"
    using e1 by (intro power_increasing) simp_all
  ultimately have "2 ^ 52 * 2 ^ 1 \<le> q' * 2 ^ e"
    by (rule mult_le_mono)
  then have "int (2 ^ 52 * 2 ^ 1) \<le> int (q' * 2 ^ e)"
    by (rule of_nat_mono)
  then have big: "(2::int) ^ 53 \<le> int (q' * 2 ^ e)"
    by simp
  have fx: "float64 x = sgn x * int (q' * 2 ^ e)"
    by (simp add: float64_def Let_def m_def e_def q_def q'_def)
  have "x \<noteq> 0" using assms by auto
  then have "\<bar>sgn x\<bar> = 1" by (simp add: abs_sgn_eq)
  then have "\<bar>float64 x\<bar> = int (q' * 2 ^ e)"
    unfolding fx abs_mult by simp
  with big show ?thesis by simp
qed

lemma float64_shift_examples:
  "float64_shift 18014398509481985 = 2"
  "float64_shift 18014398509481984 = 2"
  "float64_shift 36028797018963971 = 3"
  "float64_shift 36028797018963964 = 2"
  "float64_shift 36028797018963961 = 2"
  "float64_shift 36028797018963973 = 3"
  "float64_shift 36028797018963974 = 3"
  "float64_shift 36028797018963976 = 3"
  by (simp_all add: float64_shift.simps)

lemma float64_examples:
  "float64 18014398509481985 = 18014398509481984"
  "float64 18014398509481984 = 18014398509481984"
  "float64 36028797018963971 = 36028797018963968"
  "float64 36028797018963964 = 36028797018963964"
  "float64 36028797018963961 = 36028797018963960"
  "float64 36028797018963973 = 36028797018963976"
  "float64 36028797018963974 = 36028797018963976"
  "float64 36028797018963976 = 36028797018963976"
  "float64 7 = 7" "float64 1 = 1" "float64 0 = 0"
  by (simp_all add: float64_def float64_shift_examples float64_shift_small Let_def)

lemma AreSizesEqualWithinDelta_Gi_examples:
  "AreSizesEqualWithinDelta 10737418240 10737418240 1073741824"
  "\<not> AreSizesEqualWithinDelta 10737418240 5368709120 1073741824"
  "\<not> AreSizesEqualWithinDelta 10737418240 0 1073741824"
  by (simp_all add: AreSizesEqualWithinDelta_def float64_exact)

text \<open>
  Claim C3, as the code has it. When the byte values of the two sizes and of the
  tolerance are at most \<open>2 ^ 53\<close> in magnitude, \<open>AreSizesEqualWithinDelta a b t\<close> is true
  exactly when \<open>\<bar>a - b\<bar> < t\<close> in integer arithmetic: true for \<open>a = b\<close> and a positive
  tolerance, false on the boundary \<open>a - b = t\<close>.
\<close>

theorem AreSizesEqualWithinDelta_exact_in_range:
  assumes "\<bar>a\<bar> \<le> 2 ^ 53" and "\<bar>b\<bar> \<le> 2 ^ 53" and "\<bar>t\<bar> \<le> 2 ^ 53"
  shows "AreSizesEqualWithinDelta a b t \<longleftrightarrow> \<bar>a - b\<bar> < t"
proof -
  have eq: "AreSizesEqualWithinDelta a b t \<longleftrightarrow> \<bar>float64 (a - b)\<bar> < t"
    using assms by (simp add: AreSizesEqualWithinDelta_def float64_exact)
  show ?thesis
  proof (cases "\<bar>a - b\<bar> \<le> 2 ^ 53")
    case True
    then show ?thesis by (simp add: eq float64_exact)
  next
    case False
    then have "2 ^ 53 \<le> \<bar>a - b\<bar>" by simp
    then have "2 ^ 53 \<le> \<bar>float64 (a - b)\<bar>" by (rule float64_large)
    with False assms(3) show ?thesis unfolding eq by linarith
  qed
qed

text \<open>
  The theorem at 10Gi against 10Gi and at 11Gi against 10Gi, with a tolerance of 1Gi:
  equal sizes compare equal, the boundary does not.
\<close>

theorem AreSizesEqualWithinDelta_exact_in_range_witness:
  "AreSizesEqualWithinDelta 10737418240 10737418240 1073741824 \<and>
   \<not> AreSizesEqualWithinDelta 11811160064 10737418240 1073741824"
  using AreSizesEqualWithinDelta_exact_in_range [of 10737418240 10737418240 1073741824]
    AreSizesEqualWithinDelta_exact_in_range [of 11811160064 10737418240 1073741824]
  by simp

text \<open>
  Claim C3 as stated fails beyond 53 bits. With \<open>a = 2 ^ 54 + 1\<close>, \<open>b = 2 ^ 54\<close> and
  \<open>t = 1\<close> both sizes convert to the same \<^verbatim>\<open>float64\<close> and the function answers true
  although \<open>\<bar>a - b\<bar> = 1\<close> is not below \<open>t\<close>. With \<open>a = 2 ^ 55 + 3\<close>, \<open>b = 7\<close> and
  \<open>t = 2 ^ 55 - 4\<close>, the boundary \<open>a - b = t\<close>, it answers true as well.
\<close>

theorem AreSizesEqualWithinDelta_beyond_53_bits_counterexample:
  "AreSizesEqualWithinDelta 18014398509481985 18014398509481984 1 \<and>
   \<not> \<bar>18014398509481985 - 18014398509481984\<bar> < (1::int) \<and>
   AreSizesEqualWithinDelta 36028797018963971 7 36028797018963964 \<and>
   36028797018963971 - 7 = (36028797018963964::int)"
  by (simp add: AreSizesEqualWithinDelta_def float64_examples)

text \<open>
  A request of \<open>2 ^ 55 + 5\<close> bytes, an actual size of zero and a tolerance of
  \<open>2 ^ 55 + 6\<close>: the difference is below the tolerance, and the function answers
  false, since request and tolerance round to the same \<^verbatim>\<open>float64\<close>.
\<close>

lemma AreSizesEqualWithinDelta_rounded_up_example:
  "\<not> AreSizesEqualWithinDelta 36028797018963973 0 36028797018963974"
  by (simp add: AreSizesEqualWithinDelta_def float64_examples)

section \<open>Properties of the capacity functions\<close>

lemma LVMType_distinct: "LVMTypeThick \<noteq> LVMTypeThin"
  by (simp add: LVMTypeThick_def LVMTypeThin_def)


lemma GetNodeWithMaxFreeSpace_loop_no_gain:
  assumes "\<forall>lvg\<in>set lvgs.
             (lvmType = LVMTypeThick \<longrightarrow> lvg_VGFree lvg \<le> maxFreeSpace) \<and>
             (lvmType = LVMTypeThin \<longrightarrow>
                (\<exists>thinPoolName q. params (lvg_Name lvg) = Some thinPoolName \<and>
                   GetLVMThinPoolFreeSpace lvg thinPoolName = (q, None) \<and> q \<le> maxFreeSpace))"
    and "freeSpace \<le> maxFreeSpace"
  shows "GetNodeWithMaxFreeSpace_loop lvgs params lvmType nodeName freeSpace maxFreeSpace =
           Returns (nodeName, maxFreeSpace, None)"
  using assms
proof (induction lvgs arbitrary: freeSpace)
  case Nil
  then show ?case by simp
next
  case (Cons lvg rest)
  have rest: "\<And>fsp. fsp \<le> maxFreeSpace \<Longrightarrow>
      GetNodeWithMaxFreeSpace_loop rest params lvmType nodeName fsp maxFreeSpace =
        Returns (nodeName, maxFreeSpace, None)"
    using Cons.IH Cons.prems(1) by simp
  consider (thick) "lvmType = LVMTypeThick"
    | (thin) "lvmType \<noteq> LVMTypeThick" "lvmType = LVMTypeThin"
    | (other) "lvmType \<noteq> LVMTypeThick" "lvmType \<noteq> LVMTypeThin"
    by blast
  then show ?case
  proof cases
    case thick
    with Cons.prems(1) have "lvg_VGFree lvg \<le> maxFreeSpace" by simp
    with thick rest show ?thesis by simp
  next
    case thin
    with Cons.prems(1) obtain thinPoolName q where
      "params (lvg_Name lvg) = Some thinPoolName"
      "GetLVMThinPoolFreeSpace lvg thinPoolName = (q, None)" "q \<le> maxFreeSpace"
      by auto
    with thin rest show ?thesis by simp
  next
    case other
    with Cons.prems(2) rest show ?thesis by simp
  qed
qed

lemma GetNodeWithMaxFreeSpace_loop_first_max:
  assumes "\<forall>lvg\<in>set lvgs.
             (lvmType = LVMTypeThick \<and> lvg_VGFree lvg = fs lvg) \<or>
             (lvmType = LVMTypeThin \<and>
                (\<exists>thinPoolName. params (lvg_Name lvg) = Some thinPoolName \<and>
                   GetLVMThinPoolFreeSpace lvg thinPoolName = (fs lvg, None)))"
    and "\<forall>j\<le>i. maxFreeSpace < fs (lvgs ! j) \<and> (\<forall>k<j. fs (lvgs ! k) < fs (lvgs ! j))
           \<longrightarrow> lvg_Nodes (lvgs ! j) \<noteq> []"
    and "i < length lvgs"
    and "maxFreeSpace < fs (lvgs ! i)"
    and "\<forall>j<i. fs (lvgs ! j) < fs (lvgs ! i)"
    and "\<forall>j<length lvgs. fs (lvgs ! j) \<le> fs (lvgs ! i)"
  shows "GetNodeWithMaxFreeSpace_loop lvgs params lvmType nodeName freeSpace maxFreeSpace =
           Returns (hd (lvg_Nodes (lvgs ! i)), fs (lvgs ! i), None)"
  using assms
proof (induction lvgs arbitrary: i nodeName freeSpace maxFreeSpace)
  case Nil
  then show ?case by simp
next
  case (Cons lvg rest)
  have gain: "GetNodeWithMaxFreeSpace_loop (lvg # rest) params lvmType nodeName freeSpace maxFreeSpace =
      GetNodeWithMaxFreeSpace_loop rest params lvmType node (fs lvg) (fs lvg)"
    if "maxFreeSpace < fs lvg" and "lvg_Nodes lvg = node # nodes" for node nodes
    using that Cons.prems(1) LVMType_distinct by auto
  have keep: "GetNodeWithMaxFreeSpace_loop (lvg # rest) params lvmType nodeName freeSpace maxFreeSpace =
      GetNodeWithMaxFreeSpace_loop rest params lvmType nodeName (fs lvg) maxFreeSpace"
    if "\<not> maxFreeSpace < fs lvg"
    using that Cons.prems(1) LVMType_distinct by auto
  have rest_fs: "\<forall>g\<in>set rest.
             (lvmType = LVMTypeThick \<and> lvg_VGFree g = fs g) \<or>
             (lvmType = LVMTypeThin \<and>
                (\<exists>thinPoolName. params (lvg_Name g) = Some thinPoolName \<and>
                   GetLVMThinPoolFreeSpace g thinPoolName = (fs g, None)))"
    using Cons.prems(1) by simp
  show ?case
  proof (cases i)
    case 0
    with Cons.prems(2,4) have "lvg_Nodes lvg \<noteq> []" by auto
    then obtain node nodes where nodes: "lvg_Nodes lvg = node # nodes"
      by (cases "lvg_Nodes lvg") auto
    have le: "\<forall>g\<in>set rest. fs g \<le> fs lvg"
    proof
      fix g assume "g \<in> set rest"
      then obtain k where "k < length rest" "rest ! k = g"
        by (auto simp: in_set_conv_nth)
      with Cons.prems(6) 0 show "fs g \<le> fs lvg"
        by (auto dest: spec [where x = "Suc k"])
    qed
    have "GetNodeWithMaxFreeSpace_loop rest params lvmType node (fs lvg) (fs lvg) = Returns (node, fs lvg, None)"
    proof (rule GetNodeWithMaxFreeSpace_loop_no_gain)
      show "\<forall>g\<in>set rest.
             (lvmType = LVMTypeThick \<longrightarrow> lvg_VGFree g \<le> fs lvg) \<and>
             (lvmType = LVMTypeThin \<longrightarrow>
                (\<exists>thinPoolName q. params (lvg_Name g) = Some thinPoolName \<and>
                   GetLVMThinPoolFreeSpace g thinPoolName = (q, None) \<and> q \<le> fs lvg))"
        using rest_fs le LVMType_distinct by fastforce
    qed simp
    with gain [OF _ nodes] Cons.prems(4) 0 nodes show ?thesis by simp
  next
    case (Suc k)
    have lt: "fs lvg < fs (rest ! k)"
      using Cons.prems(5) Suc by (auto dest: spec [where x = 0])
    have k: "k < length rest" using Cons.prems(3) Suc by simp
    have before: "\<forall>j<k. fs (rest ! j) < fs (rest ! k)"
      using Cons.prems(5) Suc by (auto dest: spec [where x = "Suc j" for j])
    have all: "\<forall>j<length rest. fs (rest ! j) \<le> fs (rest ! k)"
      using Cons.prems(6) Suc by (auto dest: spec [where x = "Suc j" for j])
    have nodes_rest: "\<forall>j\<le>k. m < fs (rest ! j) \<and> (\<forall>l<j. fs (rest ! l) < fs (rest ! j))
           \<longrightarrow> lvg_Nodes (rest ! j) \<noteq> []"
      if "maxFreeSpace \<le> m" and "fs lvg \<le> m" for m
    proof (intro allI impI)
      fix j assume j: "j \<le> k"
        and setter: "m < fs (rest ! j) \<and> (\<forall>l<j. fs (rest ! l) < fs (rest ! j))"
      have "maxFreeSpace < fs ((lvg # rest) ! Suc j) \<and>
            (\<forall>l<Suc j. fs ((lvg # rest) ! l) < fs ((lvg # rest) ! Suc j))"
      proof (intro conjI allI impI)
        show "maxFreeSpace < fs ((lvg # rest) ! Suc j)" using setter that by simp
        fix l assume "l < Suc j"
        then show "fs ((lvg # rest) ! l) < fs ((lvg # rest) ! Suc j)"
          using setter that by (cases l) auto
      qed
      moreover have "Suc j \<le> i" using j Suc by simp
      ultimately have "lvg_Nodes ((lvg # rest) ! Suc j) \<noteq> []"
        using Cons.prems(2) by blast
      then show "lvg_Nodes (rest ! j) \<noteq> []" by simp
    qed
    show ?thesis
    proof (cases "maxFreeSpace < fs lvg")
      case True
      then have "lvg_Nodes lvg \<noteq> []"
        using Cons.prems(2) by (auto dest: spec [where x = 0])
      then obtain node nodes where nodes: "lvg_Nodes lvg = node # nodes"
        by (cases "lvg_Nodes lvg") auto
      have "GetNodeWithMaxFreeSpace_loop rest params lvmType node (fs lvg) (fs lvg) =
          Returns (hd (lvg_Nodes (rest ! k)), fs (rest ! k), None)"
        using rest_fs nodes_rest [of "fs lvg"] k lt before all True
        by (intro Cons.IH) simp_all
      with gain [OF True nodes] Suc show ?thesis by simp
    next
      case False
      have "GetNodeWithMaxFreeSpace_loop rest params lvmType nodeName (fs lvg) maxFreeSpace =
          Returns (hd (lvg_Nodes (rest ! k)), fs (rest ! k), None)"
        using rest_fs nodes_rest [of maxFreeSpace] k before all False Cons.prems(4) Suc
        by (intro Cons.IH) simp_all
      with keep [OF False] Suc show ?thesis by simp
    qed
  qed
qed

lemma GetNodeMaxFreeVGSize_loop_no_gain:
  assumes "\<forall>lvg\<in>set items. \<exists>q. GetLVMVolumeGroupFreeSpace_lvm pq lvg = (q, None) \<and> q \<le> maxFreeSpace"
  shows "GetNodeMaxFreeVGSize_loop pq items nodeName maxFreeSpace =
           Returns (nodeName, maxFreeSpace, None)"
  using assms by (induction items) auto

lemma GetNodeMaxFreeVGSize_loop_first_max:
  assumes "\<forall>lvg\<in>set items. GetLVMVolumeGroupFreeSpace_lvm pq lvg = (fs lvg, None)"
    and "\<forall>j\<le>i. maxFreeSpace < fs (items ! j) \<and> (\<forall>k<j. fs (items ! k) < fs (items ! j))
           \<longrightarrow> vg_Nodes (items ! j) \<noteq> []"
    and "i < length items"
    and "maxFreeSpace < fs (items ! i)"
    and "\<forall>j<i. fs (items ! j) < fs (items ! i)"
    and "\<forall>j<length items. fs (items ! j) \<le> fs (items ! i)"
  shows "GetNodeMaxFreeVGSize_loop pq items nodeName maxFreeSpace =
           Returns (hd (vg_Nodes (items ! i)), fs (items ! i), None)"
  using assms
proof (induction items arbitrary: i nodeName  maxFreeSpace)
  case Nil
  then show ?case by simp
next
  case (Cons lvg rest)
  have gain: "GetNodeMaxFreeVGSize_loop pq (lvg # rest) nodeName maxFreeSpace =
      GetNodeMaxFreeVGSize_loop pq rest node (fs lvg)"
    if "maxFreeSpace < fs lvg" and "vg_Nodes lvg = node # nodes" for node nodes
    using that Cons.prems(1) by auto
  have keep: "GetNodeMaxFreeVGSize_loop pq (lvg # rest) nodeName maxFreeSpace =
      GetNodeMaxFreeVGSize_loop pq rest nodeName maxFreeSpace"
    if "\<not> maxFreeSpace < fs lvg"
    using that Cons.prems(1) by auto
  have rest_fs: "\<forall>g\<in>set rest. GetLVMVolumeGroupFreeSpace_lvm pq g = (fs g, None)"
    using Cons.prems(1) by simp
  show ?case
  proof (cases i)
    case 0
    with Cons.prems(2,4) have "vg_Nodes lvg \<noteq> []" by auto
    then obtain node nodes where nodes: "vg_Nodes lvg = node # nodes"
      by (cases "vg_Nodes lvg") auto
    have le: "\<forall>g\<in>set rest. fs g \<le> fs lvg"
    proof
      fix g assume "g \<in> set rest"
      then obtain k where "k < length rest" "rest ! k = g"
        by (auto simp: in_set_conv_nth)
      with Cons.prems(6) 0 show "fs g \<le> fs lvg"
        by (auto dest: spec [where x = "Suc k"])
    qed
    have "GetNodeMaxFreeVGSize_loop pq rest node (fs lvg) = Returns (node, fs lvg, None)"
    proof (rule GetNodeMaxFreeVGSize_loop_no_gain)
      show "\<forall>g\<in>set rest. \<exists>q. GetLVMVolumeGroupFreeSpace_lvm pq g = (q, None) \<and> q \<le> fs lvg"
        using rest_fs le by fastforce
    qed
    with gain [OF _ nodes] Cons.prems(4) 0 nodes show ?thesis by simp
  next
    case (Suc k)
    have lt: "fs lvg < fs (rest ! k)"
      using Cons.prems(5) Suc by (auto dest: spec [where x = 0])
    have k: "k < length rest" using Cons.prems(3) Suc by simp
    have before: "\<forall>j<k. fs (rest ! j) < fs (rest ! k)"
      using Cons.prems(5) Suc by (auto dest: spec [where x = "Suc j" for j])
    have all: "\<forall>j<length rest. fs (rest ! j) \<le> fs (rest ! k)"
      using Cons.prems(6) Suc by (auto dest: spec [where x = "Suc j" for j])
    have nodes_rest: "\<forall>j\<le>k. m < fs (rest ! j) \<and> (\<forall>l<j. fs (rest ! l) < fs (rest ! j))
           \<longrightarrow> vg_Nodes (rest ! j) \<noteq> []"
      if "maxFreeSpace \<le> m" and "fs lvg \<le> m" for m
    proof (intro allI impI)
      fix j assume j: "j \<le> k"
        and setter: "m < fs (rest ! j) \<and> (\<forall>l<j. fs (rest ! l) < fs (rest ! j))"
      have "maxFreeSpace < fs ((lvg # rest) ! Suc j) \<and>
            (\<forall>l<Suc j. fs ((lvg # rest) ! l) < fs ((lvg # rest) ! Suc j))"
      proof (intro conjI allI impI)
        show "maxFreeSpace < fs ((lvg # rest) ! Suc j)" using setter that by simp
        fix l assume "l < Suc j"
        then show "fs ((lvg # rest) ! l) < fs ((lvg # rest) ! Suc j)"
          using setter that by (cases l) auto
      qed
      moreover have "Suc j \<le> i" using j Suc by simp
      ultimately have "vg_Nodes ((lvg # rest) ! Suc j) \<noteq> []"
        using Cons.prems(2) by blast
      then show "vg_Nodes (rest ! j) \<noteq> []" by simp
    qed
    show ?thesis
    proof (cases "maxFreeSpace < fs lvg")
      case True
      then have "vg_Nodes lvg \<noteq> []"
        using Cons.prems(2) by (auto dest: spec [where x = 0])
      then obtain node nodes where nodes: "vg_Nodes lvg = node # nodes"
        by (cases "vg_Nodes lvg") auto
      have "GetNodeMaxFreeVGSize_loop pq rest node (fs lvg) =
          Returns (hd (vg_Nodes (rest ! k)), fs (rest ! k), None)"
        using rest_fs nodes_rest [of "fs lvg"] k lt before all True
        by (intro Cons.IH) simp_all
      with gain [OF True nodes] Suc show ?thesis by simp
    next
      case False
      have "GetNodeMaxFreeVGSize_loop pq rest nodeName maxFreeSpace =
          Returns (hd (vg_Nodes (rest ! k)), fs (rest ! k), None)"
        using rest_fs nodes_rest [of maxFreeSpace] k before all False Cons.prems(4) Suc
        by (intro Cons.IH) simp_all
      with keep [OF False] Suc show ?thesis by simp
    qed
  qed
qed

text \<open>
  Claim C1, as the code has it. Let every group's free space be computed (Thick:
  \<open>VGFree\<close>; Thin: the available space of the thin pool that the storage class names
  for the group; sds-lvm-csi: \<open>VGSize - AllocatedSize\<close>). Let the group at index \<open>i\<close>
  have strictly positive free space, strictly more than every group before it and at
  least as much as every group of the list. Let every group up to \<open>i\<close> that sets a new
  running maximum (positive free space, strictly more than every group before it) name
  a node; these are the groups whose \<^verbatim>\<open>Status.Nodes[0]\<close> is read. Then
  \<^verbatim>\<open>GetNodeWithMaxFreeSpace\<close> returns the first node of the group at \<open>i\<close> and its free
  space, with a nil error: among groups with equal free space the first in list order
  wins. \<^verbatim>\<open>GetNodeMaxFreeVGSize\<close> of sds-lvm-csi does the same on the items that its
  \<^verbatim>\<open>List\<close> calls obtained.
\<close>

theorem node_with_max_free_space_first_maximum:
  "(\<forall>lvgs params lvmType fs i.
      (\<forall>lvg\<in>set lvgs.
         (lvmType = LVMTypeThick \<and> lvg_VGFree lvg = fs lvg) \<or>
         (lvmType = LVMTypeThin \<and>
            (\<exists>thinPoolName. params (lvg_Name lvg) = Some thinPoolName \<and>
               GetLVMThinPoolFreeSpace lvg thinPoolName = (fs lvg, None)))) \<and>
      (\<forall>j\<le>i. 0 < fs (lvgs ! j) \<and> (\<forall>k<j. fs (lvgs ! k) < fs (lvgs ! j))
                \<longrightarrow> lvg_Nodes (lvgs ! j) \<noteq> []) \<and>
      i < length lvgs \<and> 0 < fs (lvgs ! i) \<and>
      (\<forall>j<i. fs (lvgs ! j) < fs (lvgs ! i)) \<and>
      (\<forall>j<length lvgs. fs (lvgs ! j) \<le> fs (lvgs ! i))
      \<longrightarrow> GetNodeWithMaxFreeSpace lvgs params lvmType =
            Returns (hd (lvg_Nodes (lvgs ! i)), fs (lvgs ! i), None)) \<and>
   (\<forall>kc pq h items h' fs i.
      GetNodeMaxFreeVGSize_list kc 0 None h = (None, items, h') \<and>
      (\<forall>lvg\<in>set items. GetLVMVolumeGroupFreeSpace_lvm pq lvg = (fs lvg, None)) \<and>
      (\<forall>j\<le>i. 0 < fs (items ! j) \<and> (\<forall>k<j. fs (items ! k) < fs (items ! j))
                \<longrightarrow> vg_Nodes (items ! j) \<noteq> []) \<and>
      i < length items \<and> 0 < fs (items ! i) \<and>
      (\<forall>j<i. fs (items ! j) < fs (items ! i)) \<and>
      (\<forall>j<length items. fs (items ! j) \<le> fs (items ! i))
      \<longrightarrow> GetNodeMaxFreeVGSize kc pq h =
            (Returns (hd (vg_Nodes (items ! i)), fs (items ! i), None), h'))"
proof (intro conjI allI impI)
  fix lvgs :: "LVMVolumeGroup list" and params lvmType fs i
  assume "(\<forall>lvg\<in>set lvgs.
         (lvmType = LVMTypeThick \<and> lvg_VGFree lvg = fs lvg) \<or>
         (lvmType = LVMTypeThin \<and>
            (\<exists>thinPoolName. params (lvg_Name lvg) = Some thinPoolName \<and>
               GetLVMThinPoolFreeSpace lvg thinPoolName = (fs lvg, None)))) \<and>
      (\<forall>j\<le>i. 0 < fs (lvgs ! j) \<and> (\<forall>k<j. fs (lvgs ! k) < fs (lvgs ! j))
                \<longrightarrow> lvg_Nodes (lvgs ! j) \<noteq> []) \<and>
      i < length lvgs \<and> 0 < fs (lvgs ! i) \<and>
      (\<forall>j<i. fs (lvgs ! j) < fs (lvgs ! i)) \<and>
      (\<forall>j<length lvgs. fs (lvgs ! j) \<le> fs (lvgs ! i))"
  then show "GetNodeWithMaxFreeSpace lvgs params lvmType =
            Returns (hd (lvg_Nodes (lvgs ! i)), fs (lvgs ! i), None)"
    unfolding GetNodeWithMaxFreeSpace_def
    by (intro GetNodeWithMaxFreeSpace_loop_first_max) blast+
next
  fix kc pq h and items :: "LvmVolumeGroup list" and h' fs i
  assume a: "GetNodeMaxFreeVGSize_list kc 0 None h = (None, items, h') \<and>
      (\<forall>lvg\<in>set items. GetLVMVolumeGroupFreeSpace_lvm pq lvg = (fs lvg, None)) \<and>
      (\<forall>j\<le>i. 0 < fs (items ! j) \<and> (\<forall>k<j. fs (items ! k) < fs (items ! j))
                \<longrightarrow> vg_Nodes (items ! j) \<noteq> []) \<and>
      i < length items \<and> 0 < fs (items ! i) \<and>
      (\<forall>j<i. fs (items ! j) < fs (items ! i)) \<and>
      (\<forall>j<length items. fs (items ! j) \<le> fs (items ! i))"
  then have "GetNodeMaxFreeVGSize_loop pq items '''' 0 =
      Returns (hd (vg_Nodes (items ! i)), fs (items ! i), None)"
    by (intro GetNodeMaxFreeVGSize_loop_first_max) blast+
  with a show "GetNodeMaxFreeVGSize kc pq h =
            (Returns (hd (vg_Nodes (items ! i)), fs (items ! i), None), h')"
    by (simp add: GetNodeMaxFreeVGSize_def)
qed

lemma GetNodeMaxFreeVGSize_list_example:
  "GetNodeMaxFreeVGSize_list (listing_store items) 0 None [] =
     (None, items, [List, Sleep 1, List])"
  by (simp add: GetNodeMaxFreeVGSize_list.simps listing_store_def
      KubernetesApiRequestLimit_def KubernetesApiRequestTimeout_def)

lemma GetLVMVolumeGroupFreeSpace_lvm_examples:
  "GetLVMVolumeGroupFreeSpace_lvm parse_example
     \<lparr>vg_Name = n, vg_VGSize = ''20Gi'', vg_AllocatedSize = ''15Gi'', vg_Nodes = ns\<rparr> =
       (5368709120, None)"
  "GetLVMVolumeGroupFreeSpace_lvm parse_example
     \<lparr>vg_Name = n, vg_VGSize = ''20Gi'', vg_AllocatedSize = ''8Gi'', vg_Nodes = ns\<rparr> =
       (12884901888, None)"
  "GetLVMVolumeGroupFreeSpace_lvm parse_example
     \<lparr>vg_Name = n, vg_VGSize = ''20Gi'', vg_AllocatedSize = ''20Gi'', vg_Nodes = ns\<rparr> =
       (0, None)"
  by (simp_all add: GetLVMVolumeGroupFreeSpace_lvm_def parse_example_def)

text \<open>
  The theorem on the groups with 5Gi, 12Gi and 12Gi free: the node of the first 12Gi
  group is returned, in both packages (in sds-lvm-csi after one failed \<^verbatim>\<open>List\<close>); on
  two groups with thin pools of 5Gi and 12Gi; and on a group with 12Gi followed by a
  group with 5Gi that names no node.
\<close>

theorem node_with_max_free_space_first_maximum_witness:
  "GetNodeWithMaxFreeSpace lvgs_5_12_12 Map.empty LVMTypeThick =
     Returns (''node2'', 12884901888, None) \<and>
   GetNodeWithMaxFreeSpace lvgs_thin params_thin LVMTypeThin =
     Returns (''node2'', 12884901888, None) \<and>
   GetNodeMaxFreeVGSize (listing_store vgs_5_12_12) parse_example [] =
     (Returns (''node2'', 12884901888, None), [List, Sleep 1, List]) \<and>
   GetNodeWithMaxFreeSpace lvgs_12_5 Map.empty LVMTypeThick =
     Returns (''node1'', 12884901888, None)"
proof (intro conjI)
  have "(\<forall>lvg\<in>set lvgs_5_12_12.
           (LVMTypeThick = LVMTypeThick \<and> lvg_VGFree lvg = lvg_VGFree lvg) \<or>
           (LVMTypeThick = LVMTypeThin \<and>
              (\<exists>thinPoolName. Map.empty (lvg_Name lvg) = Some thinPoolName \<and>
                 GetLVMThinPoolFreeSpace lvg thinPoolName = (lvg_VGFree lvg, None)))) \<and>
        (\<forall>j\<le>1. 0 < lvg_VGFree (lvgs_5_12_12 ! j) \<and>
                  (\<forall>k<j. lvg_VGFree (lvgs_5_12_12 ! k) < lvg_VGFree (lvgs_5_12_12 ! j))
                  \<longrightarrow> lvg_Nodes (lvgs_5_12_12 ! j) \<noteq> []) \<and>
        1 < length lvgs_5_12_12 \<and> 0 < lvg_VGFree (lvgs_5_12_12 ! 1) \<and>
        (\<forall>j<1. lvg_VGFree (lvgs_5_12_12 ! j) < lvg_VGFree (lvgs_5_12_12 ! 1)) \<and>
        (\<forall>j<length lvgs_5_12_12. lvg_VGFree (lvgs_5_12_12 ! j) \<le> lvg_VGFree (lvgs_5_12_12 ! 1))"
    by (simp add: lvgs_5_12_12_def All_less_Suc le_Suc_eq)
  then have "GetNodeWithMaxFreeSpace lvgs_5_12_12 Map.empty LVMTypeThick =
      Returns (hd (lvg_Nodes (lvgs_5_12_12 ! 1)), lvg_VGFree (lvgs_5_12_12 ! 1), None)"
    by (rule node_with_max_free_space_first_maximum
        [THEN conjunct1, THEN spec [where x = lvgs_5_12_12], THEN spec [where x = Map.empty],
          THEN spec [where x = LVMTypeThick], THEN spec [where x = lvg_VGFree],
          THEN spec [where x = 1], THEN mp])
  then show "GetNodeWithMaxFreeSpace lvgs_5_12_12 Map.empty LVMTypeThick =
      Returns (''node2'', 12884901888, None)"
    by (simp add: lvgs_5_12_12_def)
next
  let ?fs = "\<lambda>lvg. fst (GetLVMThinPoolFreeSpace lvg ''pool1'')"
  have "(\<forall>lvg\<in>set lvgs_thin.
           (LVMTypeThin = LVMTypeThick \<and> lvg_VGFree lvg = ?fs lvg) \<or>
           (LVMTypeThin = LVMTypeThin \<and>
              (\<exists>thinPoolName. params_thin (lvg_Name lvg) = Some thinPoolName \<and>
                 GetLVMThinPoolFreeSpace lvg thinPoolName = (?fs lvg, None)))) \<and>
        (\<forall>j\<le>1. 0 < ?fs (lvgs_thin ! j) \<and>
                  (\<forall>k<j. ?fs (lvgs_thin ! k) < ?fs (lvgs_thin ! j))
                  \<longrightarrow> lvg_Nodes (lvgs_thin ! j) \<noteq> []) \<and>
        1 < length lvgs_thin \<and> 0 < ?fs (lvgs_thin ! 1) \<and>
        (\<forall>j<1. ?fs (lvgs_thin ! j) < ?fs (lvgs_thin ! 1)) \<and>
        (\<forall>j<length lvgs_thin. ?fs (lvgs_thin ! j) \<le> ?fs (lvgs_thin ! 1))"
    by (simp add: lvgs_thin_def params_thin_def GetLVMThinPoolFreeSpace_def All_less_Suc le_Suc_eq)
  then have "GetNodeWithMaxFreeSpace lvgs_thin params_thin LVMTypeThin =
      Returns (hd (lvg_Nodes (lvgs_thin ! 1)), ?fs (lvgs_thin ! 1), None)"
    by (rule node_with_max_free_space_first_maximum
        [THEN conjunct1, THEN spec [where x = lvgs_thin], THEN spec [where x = params_thin],
          THEN spec [where x = LVMTypeThin], THEN spec [where x = ?fs],
          THEN spec [where x = 1], THEN mp])
  then show "GetNodeWithMaxFreeSpace lvgs_thin params_thin LVMTypeThin =
      Returns (''node2'', 12884901888, None)"
    by (simp add: lvgs_thin_def GetLVMThinPoolFreeSpace_def)
next
  let ?fs = "\<lambda>lvg. fst (GetLVMVolumeGroupFreeSpace_lvm parse_example lvg)"
  have "GetNodeMaxFreeVGSize_list (listing_store vgs_5_12_12) 0 None [] =
          (None, vgs_5_12_12, [List, Sleep 1, List]) \<and>
        (\<forall>lvg\<in>set vgs_5_12_12. GetLVMVolumeGroupFreeSpace_lvm parse_example lvg = (?fs lvg, None)) \<and>
        (\<forall>j\<le>1. 0 < ?fs (vgs_5_12_12 ! j) \<and>
                  (\<forall>k<j. ?fs (vgs_5_12_12 ! k) < ?fs (vgs_5_12_12 ! j))
                  \<longrightarrow> vg_Nodes (vgs_5_12_12 ! j) \<noteq> []) \<and>
        1 < length vgs_5_12_12 \<and> 0 < ?fs (vgs_5_12_12 ! 1) \<and>
        (\<forall>j<1. ?fs (vgs_5_12_12 ! j) < ?fs (vgs_5_12_12 ! 1)) \<and>
        (\<forall>j<length vgs_5_12_12. ?fs (vgs_5_12_12 ! j) \<le> ?fs (vgs_5_12_12 ! 1))"
    by (simp add: GetNodeMaxFreeVGSize_list_example vgs_5_12_12_def
        GetLVMVolumeGroupFreeSpace_lvm_examples All_less_Suc le_Suc_eq)
  then have "GetNodeMaxFreeVGSize (listing_store vgs_5_12_12) parse_example [] =
      (Returns (hd (vg_Nodes (vgs_5_12_12 ! 1)), ?fs (vgs_5_12_12 ! 1), None),
       [List, Sleep 1, List])"
    by (rule node_with_max_free_space_first_maximum
        [THEN conjunct2, THEN spec [where x = "listing_store vgs_5_12_12"],
          THEN spec [where x = parse_example], THEN spec [where x = "[]"],
          THEN spec [where x = vgs_5_12_12], THEN spec [where x = "[List, Sleep 1, List]"],
          THEN spec [where x = ?fs], THEN spec [where x = 1], THEN mp])
  then show "GetNodeMaxFreeVGSize (listing_store vgs_5_12_12) parse_example [] =
      (Returns (''node2'', 12884901888, None), [List, Sleep 1, List])"
    by (simp add: vgs_5_12_12_def GetLVMVolumeGroupFreeSpace_lvm_examples)
next
  have "(\<forall>lvg\<in>set lvgs_12_5.
           (LVMTypeThick = LVMTypeThick \<and> lvg_VGFree lvg = lvg_VGFree lvg) \<or>
           (LVMTypeThick = LVMTypeThin \<and>
              (\<exists>thinPoolName. Map.empty (lvg_Name lvg) = Some thinPoolName \<and>
                 GetLVMThinPoolFreeSpace lvg thinPoolName = (lvg_VGFree lvg, None)))) \<and>
        (\<forall>j\<le>0. 0 < lvg_VGFree (lvgs_12_5 ! j) \<and>
                  (\<forall>k<j. lvg_VGFree (lvgs_12_5 ! k) < lvg_VGFree (lvgs_12_5 ! j))
                  \<longrightarrow> lvg_Nodes (lvgs_12_5 ! j) \<noteq> []) \<and>
        0 < length lvgs_12_5 \<and> 0 < lvg_VGFree (lvgs_12_5 ! 0) \<and>
        (\<forall>j<0. lvg_VGFree (lvgs_12_5 ! j) < lvg_VGFree (lvgs_12_5 ! 0)) \<and>
        (\<forall>j<length lvgs_12_5. lvg_VGFree (lvgs_12_5 ! j) \<le> lvg_VGFree (lvgs_12_5 ! 0))"
    by (simp add: lvgs_12_5_def All_less_Suc)
  then have "GetNodeWithMaxFreeSpace lvgs_12_5 Map.empty LVMTypeThick =
      Returns (hd (lvg_Nodes (lvgs_12_5 ! 0)), lvg_VGFree (lvgs_12_5 ! 0), None)"
    by (rule node_with_max_free_space_first_maximum
        [THEN conjunct1, THEN spec [where x = lvgs_12_5], THEN spec [where x = Map.empty],
          THEN spec [where x = LVMTypeThick], THEN spec [where x = lvg_VGFree],
          THEN spec [where x = 0], THEN mp])
  then show "GetNodeWithMaxFreeSpace lvgs_12_5 Map.empty LVMTypeThick =
      Returns (''node1'', 12884901888, None)"
    by (simp add: lvgs_12_5_def)
qed

text \<open>
  Claim C1 as stated fails on lists without positive free space. The running maximum
  starts at zero and a group replaces it only with strictly more: for one group without
  free space on \<open>node1\<close>, which has more free space than every group before it, and
  for two such groups, tied, the empty node name is returned and not \<open>node1\<close>, in
  both packages.
\<close>

theorem node_with_max_free_space_no_free_space_counterexample:
  "lvg_Nodes (lvgs_one_full ! 0) = [''node1''] \<and>
   GetNodeWithMaxFreeSpace lvgs_one_full Map.empty LVMTypeThick = Returns ('''', 0, None) \<and>
   lvg_Nodes (lvgs_two_full ! 0) = [''node1''] \<and>
   GetNodeWithMaxFreeSpace lvgs_two_full Map.empty LVMTypeThick = Returns ('''', 0, None) \<and>
   vg_Nodes (vgs_one_full ! 0) = [''node1''] \<and>
   GetNodeMaxFreeVGSize (listing_store vgs_one_full) parse_example [] =
     (Returns ('''', 0, None), [List, Sleep 1, List])"
  by (simp add: GetNodeWithMaxFreeSpace_def lvgs_one_full_def lvgs_two_full_def
      GetNodeMaxFreeVGSize_def GetNodeMaxFreeVGSize_list_example vgs_one_full_def
      GetLVMVolumeGroupFreeSpace_lvm_examples)

text \<open>
  Claim C9. When no group has strictly positive free space (every group's free space is
  computed and is at most zero; this includes the empty list, and any list when
  \<open>lvmType\<close> is neither Thick nor Thin), \<^verbatim>\<open>GetNodeWithMaxFreeSpace\<close> returns the
  empty node name, the zero quantity and a nil error, and so does
  \<^verbatim>\<open>GetNodeMaxFreeVGSize\<close> on the items that its \<^verbatim>\<open>List\<close> calls obtained. No group's
  node list is read, so none is required to name a node.
\<close>

theorem no_positive_free_space_returns_empty_node:
  "(\<forall>lvgs params lvmType.
      (\<forall>lvg\<in>set lvgs.
         (lvmType = LVMTypeThick \<longrightarrow> lvg_VGFree lvg \<le> 0) \<and>
         (lvmType = LVMTypeThin \<longrightarrow>
            (\<exists>thinPoolName q. params (lvg_Name lvg) = Some thinPoolName \<and>
               GetLVMThinPoolFreeSpace lvg thinPoolName = (q, None) \<and> q \<le> 0)))
      \<longrightarrow> GetNodeWithMaxFreeSpace lvgs params lvmType = Returns ('''', 0, None)) \<and>
   (\<forall>kc pq h items h'.
      GetNodeMaxFreeVGSize_list kc 0 None h = (None, items, h') \<and>
      (\<forall>lvg\<in>set items. \<exists>q. GetLVMVolumeGroupFreeSpace_lvm pq lvg = (q, None) \<and> q \<le> 0)
      \<longrightarrow> GetNodeMaxFreeVGSize kc pq h = (Returns ('''', 0, None), h'))"
proof (intro conjI allI impI)
  fix lvgs :: "LVMVolumeGroup list" and params lvmType
  assume "\<forall>lvg\<in>set lvgs.
         (lvmType = LVMTypeThick \<longrightarrow> lvg_VGFree lvg \<le> 0) \<and>
         (lvmType = LVMTypeThin \<longrightarrow>
            (\<exists>thinPoolName q. params (lvg_Name lvg) = Some thinPoolName \<and>
               GetLVMThinPoolFreeSpace lvg thinPoolName = (q, None) \<and> q \<le> 0))"
  then show "GetNodeWithMaxFreeSpace lvgs params lvmType = Returns ('''', 0, None)"
    unfolding GetNodeWithMaxFreeSpace_def
    by (intro GetNodeWithMaxFreeSpace_loop_no_gain) simp_all
next
  fix kc pq h and items :: "LvmVolumeGroup list" and h'
  assume a: "GetNodeMaxFreeVGSize_list kc 0 None h = (None, items, h') \<and>
      (\<forall>lvg\<in>set items. \<exists>q. GetLVMVolumeGroupFreeSpace_lvm pq lvg = (q, None) \<and> q \<le> 0)"
  then have "GetNodeMaxFreeVGSize_loop pq items '''' 0 = Returns ('''', 0, None)"
    by (intro GetNodeMaxFreeVGSize_loop_no_gain) simp
  with a show "GetNodeMaxFreeVGSize kc pq h = (Returns ('''', 0, None), h')"
    by (simp add: GetNodeMaxFreeVGSize_def)
qed

text \<open>
  The theorem on groups without free space, one of them without a node, and on the
  empty list.
\<close>

theorem no_positive_free_space_returns_empty_node_witness:
  "GetNodeWithMaxFreeSpace lvgs_full Map.empty LVMTypeThick = Returns ('''', 0, None) \<and>
   GetNodeWithMaxFreeSpace [] Map.empty LVMTypeThin = Returns ('''', 0, None) \<and>
   GetNodeMaxFreeVGSize (listing_store vgs_full) parse_example [] =
     (Returns ('''', 0, None), [List, Sleep 1, List])"
proof (intro conjI)
  have "\<forall>lvg\<in>set lvgs_full.
          (LVMTypeThick = LVMTypeThick \<longrightarrow> lvg_VGFree lvg \<le> 0) \<and>
          (LVMTypeThick = LVMTypeThin \<longrightarrow>
             (\<exists>thinPoolName q. Map.empty (lvg_Name lvg) = Some thinPoolName \<and>
                GetLVMThinPoolFreeSpace lvg thinPoolName = (q, None) \<and> q \<le> 0))"
    by (simp add: lvgs_full_def LVMType_distinct)
  then show "GetNodeWithMaxFreeSpace lvgs_full Map.empty LVMTypeThick = Returns ('''', 0, None)"
    by (rule no_positive_free_space_returns_empty_node
        [THEN conjunct1, THEN spec [where x = lvgs_full], THEN spec [where x = Map.empty],
          THEN spec [where x = LVMTypeThick], THEN mp])
next
  have "\<forall>lvg\<in>set ([] :: LVMVolumeGroup list).
          (LVMTypeThin = LVMTypeThick \<longrightarrow> lvg_VGFree lvg \<le> 0) \<and>
          (LVMTypeThin = LVMTypeThin \<longrightarrow>
             (\<exists>thinPoolName q. Map.empty (lvg_Name lvg) = Some thinPoolName \<and>
                GetLVMThinPoolFreeSpace lvg thinPoolName = (q, None) \<and> q \<le> 0))"
    by simp
  then show "GetNodeWithMaxFreeSpace [] Map.empty LVMTypeThin = Returns ('''', 0, None)"
    by (rule no_positive_free_space_returns_empty_node
        [THEN conjunct1, THEN spec [where x = "[]"], THEN spec [where x = Map.empty],
          THEN spec [where x = LVMTypeThin], THEN mp])
next
  have "GetNodeMaxFreeVGSize_list (listing_store vgs_full) 0 None [] =
          (None, vgs_full, [List, Sleep 1, List]) \<and>
        (\<forall>lvg\<in>set vgs_full. \<exists>q. GetLVMVolumeGroupFreeSpace_lvm parse_example lvg = (q, None) \<and> q \<le> 0)"
    by (simp add: GetNodeMaxFreeVGSize_list_example vgs_full_def
        GetLVMVolumeGroupFreeSpace_lvm_examples)
  then show "GetNodeMaxFreeVGSize (listing_store vgs_full) parse_example [] =
      (Returns ('''', 0, None), [List, Sleep 1, List])"
    by (rule no_positive_free_space_returns_empty_node
        [THEN conjunct2, THEN spec [where x = "listing_store vgs_full"],
          THEN spec [where x = parse_example], THEN spec [where x = "[]"],
          THEN spec [where x = vgs_full], THEN spec [where x = "[List, Sleep 1, List]"],
          THEN mp])
qed

section \<open>Properties of releasing the finalizer\<close>

lemma IsConflict_simps:
  "IsConflict (StatusError StatusReasonConflict)"
  "\<not> IsConflict (StatusError StatusReasonUnknown)"
  by (simp_all add: IsConflict_def)

lemma deleteFinalizer_absent:
  "finalizer \<notin> set finalizers \<Longrightarrow> deleteFinalizer finalizers finalizer = (finalizers, False)"
  by (induction finalizers) auto

lemma deleteFinalizer_present:
  "finalizer \<in> set finalizers \<Longrightarrow>
     deleteFinalizer finalizers finalizer = (remove1 finalizer finalizers, True)"
  by (induction finalizers) auto

text \<open>
  Claim C8. When the finalizer is not among the record's finalizers,
  \<^verbatim>\<open>removeLLVFinalizerIfExist\<close> returns \<open>(false, nil)\<close> in its first iteration: the list of
  calls is returned as it was (no \<^verbatim>\<open>Update\<close>, no \<^verbatim>\<open>Get\<close>, no sleep) and so is the
  record, whatever the store would have answered.
\<close>

theorem removeLLVFinalizerIfExist_absent_is_noop:
  assumes "finalizer \<notin> set (Finalizers llv)"
  shows "removeLLVFinalizerIfExist kc llv finalizer h = ((False, None), llv, h)"
  using assms
  by (simp add: removeLLVFinalizerIfExist_def removeLLVFinalizerIfExist_loop.simps
      KubernetesAPIRequestLimit_def deleteFinalizer_absent)

text \<open>
  The theorem on a record that carries another finalizer only, against a store that
  would refuse every \<^verbatim>\<open>Update\<close>.
\<close>

theorem removeLLVFinalizerIfExist_absent_is_noop_witness:
  "removeLLVFinalizerIfExist
     (refusing_store (StatusError StatusReasonUnknown) (llv_example [] None None))
     (llv_example [''kubernetes.io/pvc-protection''] None None) SDSLocalVolumeCSIFinalizer [] =
   ((False, None), llv_example [''kubernetes.io/pvc-protection''] None None, [])"
  using removeLLVFinalizerIfExist_absent_is_noop
    [of SDSLocalVolumeCSIFinalizer "llv_example [''kubernetes.io/pvc-protection''] None None"
      "refusing_store (StatusError StatusReasonUnknown) (llv_example [] None None)" "[]"]
  by (simp add: llv_example_def SDSLocalVolumeCSIFinalizer_def)

lemma removeLLVFinalizerIfExist_loop_succeeds_within_budget:
  assumes conflicts: "\<forall>h x. updates h < k \<longrightarrow> (\<exists>e. kcUpdate kc h x = Some e \<and> IsConflict e)"
    and success: "\<forall>h x. updates h = k \<longrightarrow> kcUpdate kc h x = None"
    and ctx: "\<forall>h. ctxErr kc h = None"
    and get: "\<forall>h. \<exists>fresh. kcGet kc h name '''' = Inr fresh \<and> Name fresh = name \<and>
                finalizer \<in> set (Finalizers fresh)"
    and budget: "k \<le> KubernetesAPIRequestLimit - 1"
    and "Name llv = name" and "finalizer \<in> set (Finalizers llv)"
    and "updates h = attempt" and "attempt \<le> k"
  shows "\<exists>llv' h'. removeLLVFinalizerIfExist_loop kc llv finalizer attempt h =
                     ((True, None), llv', h') \<and>
           updates h' = k + 1 \<and> fetches h' = fetches h + (k - attempt)"
  using assms(6-9)
proof (induction "k - attempt" arbitrary: attempt llv h)
  case 0
  then have k: "attempt = k" by simp
  with budget have lim: "attempt < KubernetesAPIRequestLimit"
    by (simp add: KubernetesAPIRequestLimit_def)
  have "kcUpdate kc h (llv\<lparr>Finalizers := remove1 finalizer (Finalizers llv)\<rparr>) = None"
    using success "0.prems"(3) k by simp
  then have "removeLLVFinalizerIfExist_loop kc llv finalizer attempt h =
      ((True, None), llv\<lparr>Finalizers := remove1 finalizer (Finalizers llv)\<rparr>,
       h @ [Update (llv\<lparr>Finalizers := remove1 finalizer (Finalizers llv)\<rparr>)])"
    using lim "0.prems"(2)
    by (subst removeLLVFinalizerIfExist_loop.simps)
      (simp add: deleteFinalizer_present Let_def)
  then show ?case
    using "0.prems"(3) k by (simp add: updates_def fetches_def)
next
  case (Suc d)
  then have lt: "attempt < k" by simp
  with budget have lim: "attempt < KubernetesAPIRequestLimit"
    and more: "attempt < KubernetesAPIRequestLimit - 1"
    by simp_all
  let ?llv1 = "llv\<lparr>Finalizers := remove1 finalizer (Finalizers llv)\<rparr>"
  let ?h1 = "h @ [Update ?llv1]"
  let ?hs = "?h1 @ [Sleep (KubernetesAPIRequestTimeout * Second)]"
  obtain e where e: "kcUpdate kc h ?llv1 = Some e" "IsConflict e"
    using conflicts Suc.prems(3) lt by blast
  obtain fresh where fresh: "kcGet kc ?hs name '''' = Inr fresh" "Name fresh = name"
      "finalizer \<in> set (Finalizers fresh)"
    using get by blast
  let ?h2 = "?hs @ [Get name '''']"
  have step: "removeLLVFinalizerIfExist_loop kc llv finalizer attempt h =
      removeLLVFinalizerIfExist_loop kc fresh finalizer (attempt + 1) ?h2"
    using lim more e fresh(1) Suc.prems(1,2) ctx
    by (subst removeLLVFinalizerIfExist_loop.simps)
      (simp add: deleteFinalizer_present GetLVMLogicalVolume_local_def Let_def)
  have "\<exists>llv' h'. removeLLVFinalizerIfExist_loop kc fresh finalizer (attempt + 1) ?h2 =
                     ((True, None), llv', h') \<and>
           updates h' = k + 1 \<and> fetches h' = fetches ?h2 + (k - (attempt + 1))"
  proof (rule Suc.hyps(1))
    show "d = k - (attempt + 1)" using Suc.hyps(2) by simp
    show "Name fresh = name" by (rule fresh(2))
    show "finalizer \<in> set (Finalizers fresh)" by (rule fresh(3))
    show "updates ?h2 = attempt + 1" using Suc.prems(3) by (simp add: updates_def)
    show "attempt + 1 \<le> k" using lt by simp
  qed
  moreover have "fetches ?h2 + (k - (attempt + 1)) = fetches h + (k - attempt)"
    using lt by (simp add: fetches_def)
  ultimately show ?case using step by simp
qed

text \<open>
  The runs that end well. Let the finalizer be on the record and on every record that
  the store returns, the context live, and the store answer the first \<open>k\<close> calls of
  \<^verbatim>\<open>Update\<close> with a conflict and the next with success, \<open>k\<close> at most the limit less
  one. Then \<^verbatim>\<open>removeLLVFinalizerIfExist\<close> returns \<open>(true, nil)\<close> after \<open>k + 1\<close> calls of
  \<^verbatim>\<open>Update\<close> and \<open>k\<close> calls of \<^verbatim>\<open>Get\<close>, one after each conflict.
\<close>

lemma removeLLVFinalizerIfExist_succeeds_within_budget:
  assumes "\<forall>h x. updates h < k \<longrightarrow> (\<exists>e. kcUpdate kc h x = Some e \<and> IsConflict e)"
    and "\<forall>h x. updates h = k \<longrightarrow> kcUpdate kc h x = None"
    and "\<forall>h. ctxErr kc h = None"
    and "\<forall>h. \<exists>fresh. kcGet kc h (Name llv) '''' = Inr fresh \<and> Name fresh = Name llv \<and>
                finalizer \<in> set (Finalizers fresh)"
    and "k \<le> KubernetesAPIRequestLimit - 1"
    and "finalizer \<in> set (Finalizers llv)"
  shows "\<exists>llv' h'. removeLLVFinalizerIfExist kc llv finalizer [] = ((True, None), llv', h') \<and>
           updates h' = k + 1 \<and> fetches h' = k"
  using removeLLVFinalizerIfExist_loop_succeeds_within_budget
    [OF assms(1-5) refl assms(6), of "[]" 0]
  by (simp add: removeLLVFinalizerIfExist_def updates_def fetches_def)

lemma removeLLVFinalizerIfExist_two_conflicts_example:
  "removeLLVFinalizerIfExist
     (conflicting_store 2 (llv_example [SDSLocalVolumeCSIFinalizer] None None))
     (llv_example [SDSLocalVolumeCSIFinalizer] None None) SDSLocalVolumeCSIFinalizer [] =
   ((True, None), llv_example [] None None,
    [Update (llv_example [] None None), Sleep 1000000000, Get ''pvc-1'' '''',
     Update (llv_example [] None None), Sleep 1000000000, Get ''pvc-1'' '''',
     Update (llv_example [] None None)])"
  by (simp add: removeLLVFinalizerIfExist_def removeLLVFinalizerIfExist_loop.simps
      conflicting_store_def updates_def llv_example_def IsConflict_def
      GetLVMLogicalVolume_local_def
      KubernetesAPIRequestLimit_def KubernetesAPIRequestTimeout_def Second_def Let_def)

text \<open>
  Claim C4 asks, when every \<^verbatim>\<open>Update\<close> of the budget meets a conflict, for an error
  that wraps the last conflict. Against a store that answers every \<^verbatim>\<open>Update\<close> with a
  conflict and every \<^verbatim>\<open>Get\<close> with the record (finalizer present),
  \<^verbatim>\<open>removeLLVFinalizerIfExist\<close> makes its three \<^verbatim>\<open>Update\<close> calls, re-fetching after the
  first two, and returns \<open>false\<close> with an error whose \<^verbatim>\<open>%w\<close> operand is \<^verbatim>\<open>nil\<close>: the
  error wraps nothing, and the conflict is not in it.
\<close>

theorem removeLLVFinalizerIfExist_exhausted_wraps_nil:
  "removeLLVFinalizerIfExist
     (refusing_store (StatusError StatusReasonConflict)
        (llv_example [SDSLocalVolumeCSIFinalizer] None None))
     (llv_example [SDSLocalVolumeCSIFinalizer] None None) SDSLocalVolumeCSIFinalizer [] =
   ((False,
     Some (Errorf ''after %d attempts of removing finalizer %s from LVMLogicalVolume %s, last error: %w''
             [D 3, S SDSLocalVolumeCSIFinalizer, S ''pvc-1''] None)),
    llv_example [] None None,
    [Update (llv_example [] None None), Sleep 1000000000, Get ''pvc-1'' '''',
     Update (llv_example [] None None), Sleep 1000000000, Get ''pvc-1'' '''',
     Update (llv_example [] None None)]) \<and>
   Unwrap (Errorf ''after %d attempts of removing finalizer %s from LVMLogicalVolume %s, last error: %w''
             [D 3, S SDSLocalVolumeCSIFinalizer, S ''pvc-1''] None) = None"
  by (simp add: removeLLVFinalizerIfExist_def removeLLVFinalizerIfExist_loop.simps
      refusing_store_def llv_example_def IsConflict_simps GetLVMLogicalVolume_local_def
      KubernetesAPIRequestLimit_def KubernetesAPIRequestTimeout_def Second_def Let_def)


section \<open>Properties of creating and deleting\<close>

text \<open>
  Claim C10. The record that \<^verbatim>\<open>CreateLVMLogicalVolume\<close> of sds-local-volume-csi builds,
  sends to the store in its one \<^verbatim>\<open>Create\<close> call and returns carries the name and the
  spec given and has \<^verbatim>\<open>SDSLocalVolumeCSIFinalizer\<close> among its finalizers, for every
  store, name and spec.
\<close>

theorem CreateLVMLogicalVolume_local_sets_finalizer:
  "\<exists>llv err.
     CreateLVMLogicalVolume_local kc name lvmLogicalVolumeSpec h =
       ((Some llv, err), h @ [Create llv]) \<and>
     Name llv = name \<and> Spec llv = lvmLogicalVolumeSpec \<and>
     SDSLocalVolumeCSIFinalizer \<in> set (Finalizers llv)"
  by (simp add: CreateLVMLogicalVolume_local_def Let_def)

text \<open>
  \<^verbatim>\<open>DeleteLVMLogicalVolume\<close> of sds-lvm-csi returns \<^verbatim>\<open>nil\<close> whatever the store answers.
\<close>

lemma DeleteLVMLogicalVolume_lvm_always_nil:
  "fst (DeleteLVMLogicalVolume_lvm kc LVMLogicalVolumeName h) = None"
  by (simp add: DeleteLVMLogicalVolume_lvm_def Let_def split: prod.splits bool.splits)

text \<open>
  Claim C5 asks for a non-nil error when every delete fails. Against a store that
  refuses every \<^verbatim>\<open>Delete\<close>, \<^verbatim>\<open>DeleteLVMLogicalVolume\<close> of sds-lvm-csi makes its three
  attempts, each followed by the sleep, and returns \<^verbatim>\<open>nil\<close>: the error of an attempt
  lives in the loop body's own \<open>err\<close>, and the \<open>err\<close> that the final test reads is
  never assigned.
\<close>

theorem DeleteLVMLogicalVolume_lvm_failing_deletes_return_nil:
  "DeleteLVMLogicalVolume_lvm
     (refusing_store (StatusError StatusReasonUnknown) (llv_named ''pvc-1'')) ''pvc-1'' [] =
   (None,
    [Delete (llv_named ''pvc-1''), Sleep 1, Delete (llv_named ''pvc-1''), Sleep 1,
     Delete (llv_named ''pvc-1''), Sleep 1])"
  by (simp add: DeleteLVMLogicalVolume_lvm_def DeleteLVMLogicalVolume_lvm_loop.simps
      refusing_store_def llv_named_def KubernetesApiRequestLimit_def
      KubernetesApiRequestTimeout_def Let_def)


lemma CreateLVMLogicalVolume_lvm_loop_AlreadyExists:
  assumes "attempt < KubernetesApiRequestLimit"
    and "kcCreate kc h llv = Some e" and "IsAlreadyExists e"
  shows "CreateLVMLogicalVolume_lvm_loop kc llv attempt err h =
           (Inl (None, Some e), h @ [Create llv])"
  using assms by (subst CreateLVMLogicalVolume_lvm_loop.simps) simp

lemma CreateLVMLogicalVolume_lvm_loop_retry:
  assumes "attempt < KubernetesApiRequestLimit"
    and "kcCreate kc h llv = Some e" and "\<not> IsAlreadyExists e"
  shows "CreateLVMLogicalVolume_lvm_loop kc llv attempt err h =
           CreateLVMLogicalVolume_lvm_loop kc llv (attempt + 1) (Some e)
             (h @ [Create llv, Sleep KubernetesApiRequestTimeout])"
  using assms by (subst CreateLVMLogicalVolume_lvm_loop.simps) simp

lemma CreateLVMLogicalVolume_lvm_loop_exhausted:
  "KubernetesApiRequestLimit \<le> attempt \<Longrightarrow>
     CreateLVMLogicalVolume_lvm_loop kc llv attempt err h = (Inr err, h)"
  by (subst CreateLVMLogicalVolume_lvm_loop.simps) simp

text \<open>
  Claim C6, as the code has it. In sds-lvm-csi, \<^verbatim>\<open>CreateLVMLogicalVolume\<close> returns an
  AlreadyExists error of the store at once, at whichever attempt it comes (first
  conjunct, on the loop) and in particular at the first (second conjunct); when three
  attempts in a row fail with other errors it has made three \<^verbatim>\<open>Create\<close> calls, each
  followed by the same sleep, and returns the last error wrapped together with the
  number of attempts (third conjunct). In sds-local-volume-csi, \<^verbatim>\<open>CreateLVMLogicalVolume\<close>
  makes one \<^verbatim>\<open>Create\<close> call and returns its error as it is, AlreadyExists or not
  (fourth conjunct).
\<close>

theorem CreateLVMLogicalVolume_retry_policy:
  "(\<forall>kc llv attempt err h e.
      attempt < KubernetesApiRequestLimit \<and> kcCreate kc h llv = Some e \<and> IsAlreadyExists e
      \<longrightarrow> CreateLVMLogicalVolume_lvm_loop kc llv attempt err h =
            (Inl (None, Some e), h @ [Create llv])) \<and>
   (\<forall>kc name spec h e.
      kcCreate kc h
        \<lparr>Name = name, Finalizers = [], DeletionTimestamp = None, Spec = spec, Status = None\<rparr> =
          Some e \<and>
      IsAlreadyExists e
      \<longrightarrow> CreateLVMLogicalVolume_lvm kc name spec h =
            ((None, Some e),
             h @ [Create \<lparr>Name = name, Finalizers = [], DeletionTimestamp = None,
                          Spec = spec, Status = None\<rparr>])) \<and>
   (\<forall>kc name spec h llv once e1 e2 e3.
      llv = \<lparr>Name = name, Finalizers = [], DeletionTimestamp = None, Spec = spec, Status = None\<rparr> \<and>
      once = [Create llv, Sleep KubernetesApiRequestTimeout] \<and>
      kcCreate kc h llv = Some e1 \<and> \<not> IsAlreadyExists e1 \<and>
      kcCreate kc (h @ once) llv = Some e2 \<and> \<not> IsAlreadyExists e2 \<and>
      kcCreate kc (h @ once @ once) llv = Some e3 \<and> \<not> IsAlreadyExists e3
      \<longrightarrow> CreateLVMLogicalVolume_lvm kc name spec h =
            ((None,
              Some (Errorf ''after %d attempts of creating LVMLogicalVolume %s, last error: %w''
                      [D 3, S name] (Some e3))),
             h @ once @ once @ once)) \<and>
   (\<forall>kc name spec h llv.
      llv = \<lparr>Name = name, Finalizers = [SDSLocalVolumeCSIFinalizer], DeletionTimestamp = None,
             Spec = spec, Status = None\<rparr>
      \<longrightarrow> CreateLVMLogicalVolume_local kc name spec h =
            ((Some llv, kcCreate kc h llv), h @ [Create llv]))"
proof (intro conjI allI impI)
  fix kc :: client and llv attempt err h e
  assume "attempt < KubernetesApiRequestLimit \<and> kcCreate kc h llv = Some e \<and> IsAlreadyExists e"
  then show "CreateLVMLogicalVolume_lvm_loop kc llv attempt err h =
      (Inl (None, Some e), h @ [Create llv])"
    by (simp add: CreateLVMLogicalVolume_lvm_loop_AlreadyExists)
next
  fix kc :: client and name spec h e
  assume "kcCreate kc h
        \<lparr>Name = name, Finalizers = [], DeletionTimestamp = None, Spec = spec, Status = None\<rparr> =
          Some e \<and>
      IsAlreadyExists e"
  then show "CreateLVMLogicalVolume_lvm kc name spec h =
            ((None, Some e),
             h @ [Create \<lparr>Name = name, Finalizers = [], DeletionTimestamp = None,
                          Spec = spec, Status = None\<rparr>])"
    by (simp add: CreateLVMLogicalVolume_lvm_def CreateLVMLogicalVolume_lvm_loop_AlreadyExists
        KubernetesApiRequestLimit_def)
next
  fix kc :: client and name spec h llv once e1 e2 e3
  assume a: "llv = \<lparr>Name = name, Finalizers = [], DeletionTimestamp = None, Spec = spec, Status = None\<rparr> \<and>
      once = [Create llv, Sleep KubernetesApiRequestTimeout] \<and>
      kcCreate kc h llv = Some e1 \<and> \<not> IsAlreadyExists e1 \<and>
      kcCreate kc (h @ once) llv = Some e2 \<and> \<not> IsAlreadyExists e2 \<and>
      kcCreate kc (h @ once @ once) llv = Some e3 \<and> \<not> IsAlreadyExists e3"
  then have once: "once = [Create llv, Sleep KubernetesApiRequestTimeout]"
    and llv: "llv = \<lparr>Name = name, Finalizers = [], DeletionTimestamp = None, Spec = spec, Status = None\<rparr>"
    and c1: "kcCreate kc h llv = Some e1" "\<not> IsAlreadyExists e1"
    and c2: "kcCreate kc (h @ once) llv = Some e2" "\<not> IsAlreadyExists e2"
    and c3: "kcCreate kc (h @ once @ once) llv = Some e3" "\<not> IsAlreadyExists e3"
    by blast+
  have "CreateLVMLogicalVolume_lvm_loop kc llv 0 None h =
      CreateLVMLogicalVolume_lvm_loop kc llv (0 + 1) (Some e1) (h @ once)"
    unfolding once
    by (rule CreateLVMLogicalVolume_lvm_loop_retry)
      (use c1 in \<open>simp_all add: KubernetesApiRequestLimit_def\<close>)
  also have "\<dots> = CreateLVMLogicalVolume_lvm_loop kc llv (0 + 1 + 1) (Some e2) ((h @ once) @ once)"
    unfolding once [symmetric]
    by (subst (3) once, rule CreateLVMLogicalVolume_lvm_loop_retry)
      (use c2 in \<open>simp_all add: KubernetesApiRequestLimit_def\<close>)
  also have "\<dots> = CreateLVMLogicalVolume_lvm_loop kc llv (0 + 1 + 1 + 1) (Some e3)
      (((h @ once) @ once) @ once)"
    by (subst (5) once, rule CreateLVMLogicalVolume_lvm_loop_retry)
      (use c3 in \<open>simp_all add: KubernetesApiRequestLimit_def\<close>)
  also have "\<dots> = (Inr (Some e3), h @ once @ once @ once)"
    by (simp add: CreateLVMLogicalVolume_lvm_loop_exhausted KubernetesApiRequestLimit_def)
  finally have loop: "CreateLVMLogicalVolume_lvm_loop kc llv 0 None h =
      (Inr (Some e3), h @ once @ once @ once)" .
  show "CreateLVMLogicalVolume_lvm kc name spec h =
            ((None,
              Some (Errorf ''after %d attempts of creating LVMLogicalVolume %s, last error: %w''
                      [D 3, S name] (Some e3))),
             h @ once @ once @ once)"
    using loop unfolding llv
    by (simp add: CreateLVMLogicalVolume_lvm_def KubernetesApiRequestLimit_def)
next
  fix kc :: client and name spec h llv
  assume "llv = \<lparr>Name = name, Finalizers = [SDSLocalVolumeCSIFinalizer], DeletionTimestamp = None,
             Spec = spec, Status = None\<rparr>"
  then show "CreateLVMLogicalVolume_local kc name spec h =
            ((Some llv, kcCreate kc h llv), h @ [Create llv])"
    by (simp add: CreateLVMLogicalVolume_local_def Let_def)
qed


text \<open>
  The theorem against a store that answers AlreadyExists, against a store that is
  unavailable, and (for sds-local-volume-csi) against a store that accepts the record.
\<close>

theorem CreateLVMLogicalVolume_retry_policy_witness:
  "CreateLVMLogicalVolume_lvm
     (refusing_store (StatusError StatusReasonAlreadyExists) (llv_named ''pvc-1''))
     ''pvc-1'' spec_example [] =
     ((None, Some (StatusError StatusReasonAlreadyExists)),
      [Create (llv_example [] None None)]) \<and>
   CreateLVMLogicalVolume_lvm
     (refusing_store (StatusError StatusReasonUnknown) (llv_named ''pvc-1''))
     ''pvc-1'' spec_example [] =
     ((None,
       Some (Errorf ''after %d attempts of creating LVMLogicalVolume %s, last error: %w''
               [D 3, S ''pvc-1''] (Some (StatusError StatusReasonUnknown)))),
      [Create (llv_example [] None None), Sleep 1,
       Create (llv_example [] None None), Sleep 1,
       Create (llv_example [] None None), Sleep 1]) \<and>
   CreateLVMLogicalVolume_local (conflicting_store 0 (llv_named ''pvc-1''))
     ''pvc-1'' spec_example [] =
     ((Some (llv_example [SDSLocalVolumeCSIFinalizer] None None), None),
      [Create (llv_example [SDSLocalVolumeCSIFinalizer] None None)])"
proof (intro conjI)
  let ?exists = "refusing_store (StatusError StatusReasonAlreadyExists) (llv_named ''pvc-1'')"
  let ?down = "refusing_store (StatusError StatusReasonUnknown) (llv_named ''pvc-1'')"
  let ?llv = "\<lparr>Name = ''pvc-1'', Finalizers = [], DeletionTimestamp = None,
               Spec = spec_example, Status = None\<rparr>"
  let ?once = "[Create ?llv, Sleep KubernetesApiRequestTimeout]"
  have "0 < KubernetesApiRequestLimit \<and>
        kcCreate ?exists [] ?llv = Some (StatusError StatusReasonAlreadyExists) \<and>
        IsAlreadyExists (StatusError StatusReasonAlreadyExists)"
    by (simp add: refusing_store_def IsAlreadyExists_def KubernetesApiRequestLimit_def)
  then have "CreateLVMLogicalVolume_lvm_loop ?exists ?llv 0 None [] =
      (Inl (None, Some (StatusError StatusReasonAlreadyExists)), [] @ [Create ?llv])"
    by (rule CreateLVMLogicalVolume_retry_policy [THEN conjunct1, rule_format])
  have "kcCreate ?exists [] ?llv = Some (StatusError StatusReasonAlreadyExists) \<and>
        IsAlreadyExists (StatusError StatusReasonAlreadyExists)"
    by (simp add: refusing_store_def IsAlreadyExists_def)
  then have "CreateLVMLogicalVolume_lvm ?exists ''pvc-1'' spec_example [] =
      ((None, Some (StatusError StatusReasonAlreadyExists)), [] @ [Create ?llv])"
    by (rule CreateLVMLogicalVolume_retry_policy [THEN conjunct2, THEN conjunct1, rule_format])
  then show "CreateLVMLogicalVolume_lvm ?exists ''pvc-1'' spec_example [] =
     ((None, Some (StatusError StatusReasonAlreadyExists)),
      [Create (llv_example [] None None)])"
    by (simp add: llv_example_def)
  have "?llv = ?llv \<and> ?once = ?once \<and>
        kcCreate ?down [] ?llv = Some (StatusError StatusReasonUnknown) \<and>
        \<not> IsAlreadyExists (StatusError StatusReasonUnknown) \<and>
        kcCreate ?down ([] @ ?once) ?llv = Some (StatusError StatusReasonUnknown) \<and>
        \<not> IsAlreadyExists (StatusError StatusReasonUnknown) \<and>
        kcCreate ?down ([] @ ?once @ ?once) ?llv = Some (StatusError StatusReasonUnknown) \<and>
        \<not> IsAlreadyExists (StatusError StatusReasonUnknown)"
    by (simp add: refusing_store_def IsAlreadyExists_def)
  then have "CreateLVMLogicalVolume_lvm ?down ''pvc-1'' spec_example [] =
      ((None,
        Some (Errorf ''after %d attempts of creating LVMLogicalVolume %s, last error: %w''
                [D 3, S ''pvc-1''] (Some (StatusError StatusReasonUnknown)))),
       [] @ ?once @ ?once @ ?once)"
    by (rule CreateLVMLogicalVolume_retry_policy
        [THEN conjunct2, THEN conjunct2, THEN conjunct1, rule_format])
  then show "CreateLVMLogicalVolume_lvm ?down ''pvc-1'' spec_example [] =
     ((None,
       Some (Errorf ''after %d attempts of creating LVMLogicalVolume %s, last error: %w''
               [D 3, S ''pvc-1''] (Some (StatusError StatusReasonUnknown)))),
      [Create (llv_example [] None None), Sleep 1,
       Create (llv_example [] None None), Sleep 1,
       Create (llv_example [] None None), Sleep 1])"
    by (simp add: llv_example_def KubernetesApiRequestTimeout_def)
  let ?kc = "conflicting_store 0 (llv_named ''pvc-1'')"
  let ?local = "\<lparr>Name = ''pvc-1'', Finalizers = [SDSLocalVolumeCSIFinalizer],
                 DeletionTimestamp = None, Spec = spec_example, Status = None\<rparr>"
  have "?local = ?local" by simp
  then have "CreateLVMLogicalVolume_local ?kc ''pvc-1'' spec_example [] =
      ((Some ?local, kcCreate ?kc [] ?local), [] @ [Create ?local])"
    by (rule CreateLVMLogicalVolume_retry_policy
        [THEN conjunct2, THEN conjunct2, THEN conjunct2, rule_format])
  then show "CreateLVMLogicalVolume_local ?kc ''pvc-1'' spec_example [] =
     ((Some (llv_example [SDSLocalVolumeCSIFinalizer] None None), None),
      [Create (llv_example [SDSLocalVolumeCSIFinalizer] None None)])"
    by (simp add: llv_example_def conflicting_store_def)
qed

text \<open>
  Claim C6 as stated fails for \<^verbatim>\<open>CreateLVMLogicalVolume\<close> of sds-local-volume-csi:
  against a store that is unavailable (an error that is not AlreadyExists) it makes one
  \<^verbatim>\<open>Create\<close> call, does not sleep, and returns the store's error unwrapped.
\<close>

theorem CreateLVMLogicalVolume_local_no_retry_counterexample:
  "CreateLVMLogicalVolume_local
     (refusing_store (StatusError StatusReasonUnknown) (llv_named ''pvc-1''))
     ''pvc-1'' spec_example [] =
     ((Some (llv_example [SDSLocalVolumeCSIFinalizer] None None),
       Some (StatusError StatusReasonUnknown)),
      [Create (llv_example [SDSLocalVolumeCSIFinalizer] None None)]) \<and>
   \<not> IsAlreadyExists (StatusError StatusReasonUnknown)"
  by (simp add: CreateLVMLogicalVolume_local_def refusing_store_def llv_example_def
      IsAlreadyExists_def Let_def)

section \<open>Properties of waiting for the status\<close>

lemma fetches_simps:
  "fetches [] = 0"
  "fetches (h @ [Get name namespace]) = Suc (fetches h)"
  "fetches (h @ [Sleep n]) = fetches h"
  "fetches (h @ [Update llv]) = fetches h"
  by (simp_all add: fetches_def)

lemma WaitForStatusUpdate_local_loop_step:
  assumes "ctxErr kc h = None"
    and "kcGet kc (h @ [Sleep (500 * Millisecond)]) name ns = Inr llv"
  shows "WaitForStatusUpdate_local_loop kc name ns llvSize delta attemptCounter h =
     (case Status llv of
        None \<Rightarrow>
          WaitForStatusUpdate_local_loop kc name ns llvSize delta (attemptCounter + 1)
            (h @ [Sleep (500 * Millisecond), Get name ns])
      | Some status \<Rightarrow>
          if DeletionTimestamp llv \<noteq> None then
            Some ((attemptCounter + 1,
                   Some (Errorf ''failed to create LVM logical volume on node for LVMLogicalVolume %s, reason: LVMLogicalVolume is being deleted''
                           [S name] None)),
                  h @ [Sleep (500 * Millisecond), Get name ns])
          else if Phase status = LLVStatusFailed then
            Some ((attemptCounter + 1,
                   Some (Errorf ''failed to create LVM logical volume on node for LVMLogicalVolume %s, reason: %s''
                           [S name, S (Reason status)] None)),
                  h @ [Sleep (500 * Millisecond), Get name ns])
          else if Phase status = LLVStatusCreated \<and>
                  AreSizesEqualWithinDelta llvSize (ActualSize status) delta then
            Some ((attemptCounter + 1, None), h @ [Sleep (500 * Millisecond), Get name ns])
          else
            WaitForStatusUpdate_local_loop kc name ns llvSize delta (attemptCounter + 1)
              (h @ [Sleep (500 * Millisecond), Get name ns]))"
  using assms
  by (subst WaitForStatusUpdate_local_loop.simps)
    (simp add: GetLVMLogicalVolume_local_def Let_def split: option.splits)

lemma GetLVMLogicalVolume_lvm_first_answer:
  assumes "kcGet kc h name ns = Inr llv"
  shows "GetLVMLogicalVolume_lvm kc name ns h = (Inr llv, h @ [Get name ns])"
  using assms
  by (simp add: GetLVMLogicalVolume_lvm_def GetLVMLogicalVolume_lvm_loop.simps
      KubernetesApiRequestLimit_def)

lemma WaitForStatusUpdate_lvm_loop_step:
  assumes "ctxErr kc (h @ [Sleep (500 * Millisecond)]) = None"
    and "kcGet kc (h @ [Sleep (500 * Millisecond)]) name ns = Inr llv"
  shows "WaitForStatusUpdate_lvm_loop kc name ns llvSize delta attemptCounter h =
     (case Status llv of
        None \<Rightarrow>
          WaitForStatusUpdate_lvm_loop kc name ns llvSize delta (attemptCounter + 1)
            (h @ [Sleep (500 * Millisecond), Get name ns])
      | Some status \<Rightarrow>
          if Phase status = LLVStatusFailed then
            Some ((attemptCounter + 1,
                   Some (Errorf ''LVM Logical Volume %s failed, reason: %s''
                           [S name, S (Reason status)] None)),
                  h @ [Sleep (500 * Millisecond), Get name ns])
          else if Phase status = LLVStatusCreated \<and>
                  AreSizesEqualWithinDelta llvSize (ActualSize status) delta then
            Some ((attemptCounter + 1, None), h @ [Sleep (500 * Millisecond), Get name ns])
          else
            WaitForStatusUpdate_lvm_loop kc name ns llvSize delta (attemptCounter + 1)
              (h @ [Sleep (500 * Millisecond), Get name ns]))"
  using assms
  by (subst WaitForStatusUpdate_lvm_loop.simps)
    (simp add: GetLVMLogicalVolume_lvm_first_answer Let_def split: option.splits)


lemma concat_replicate_Suc_right:
  "concat (replicate n xs) @ xs = concat (replicate (Suc n) xs)"
  by (induction n) simp_all

lemma WaitForStatusUpdate_local_loop_skip:
  assumes ctx: "\<forall>h. ctxErr kc h = None"
    and get: "\<forall>h. fetches h < length recs \<longrightarrow> kcGet kc h name ns = Inr (recs ! fetches h)"
    and i: "i < length recs"
    and quiet: "\<forall>j<i. case Status (recs ! j) of None \<Rightarrow> True
                 | Some s \<Rightarrow> DeletionTimestamp (recs ! j) = None \<and> Phase s \<noteq> LLVStatusFailed \<and>
                     \<not> (Phase s = LLVStatusCreated \<and>
                        AreSizesEqualWithinDelta llvSize (ActualSize s) delta)"
    and "fetches h = n" and "n \<le> i"
  shows "WaitForStatusUpdate_local_loop kc name ns llvSize delta n h =
         WaitForStatusUpdate_local_loop kc name ns llvSize delta i
           (h @ concat (replicate (i - n) [Sleep (500 * Millisecond), Get name ns]))"
  using assms(5,6)
proof (induction "i - n" arbitrary: n h)
  case 0
  then show ?case by simp
next
  case (Suc m)
  then have n: "n < i" by simp
  with i Suc.prems have "fetches (h @ [Sleep (500 * Millisecond)]) < length recs"
    by (simp add: fetches_simps)
  with get Suc.prems
  have g: "kcGet kc (h @ [Sleep (500 * Millisecond)]) name ns = Inr (recs ! n)"
    by (simp add: fetches_simps)
  have q: "case Status (recs ! n) of None \<Rightarrow> True
           | Some s \<Rightarrow> DeletionTimestamp (recs ! n) = None \<and> Phase s \<noteq> LLVStatusFailed \<and>
               \<not> (Phase s = LLVStatusCreated \<and>
                  AreSizesEqualWithinDelta llvSize (ActualSize s) delta)"
    using quiet n by blast
  have "WaitForStatusUpdate_local_loop kc name ns llvSize delta n h =
        WaitForStatusUpdate_local_loop kc name ns llvSize delta (n + 1)
          (h @ [Sleep (500 * Millisecond), Get name ns])"
  proof (cases "Status (recs ! n)")
    case None
    then show ?thesis
      by (subst WaitForStatusUpdate_local_loop_step [OF ctx [rule_format] g]) simp
  next
    case (Some s)
    with q show ?thesis
      by (subst WaitForStatusUpdate_local_loop_step [OF ctx [rule_format] g]) auto
  qed
  also have "\<dots> =
        WaitForStatusUpdate_local_loop kc name ns llvSize delta i
          ((h @ [Sleep (500 * Millisecond), Get name ns]) @
             concat (replicate (i - (n + 1)) [Sleep (500 * Millisecond), Get name ns]))"
  proof (rule Suc.hyps(1))
    show "m = i - (n + 1)" using Suc.hyps(2) by simp
    show "fetches (h @ [Sleep (500 * Millisecond), Get name ns]) = n + 1"
      using Suc.prems
      by (simp add: fetches_def)
    show "n + 1 \<le> i" using n by simp
  qed
  also have "(h @ [Sleep (500 * Millisecond), Get name ns]) @
             concat (replicate (i - (n + 1)) [Sleep (500 * Millisecond), Get name ns]) =
        h @ concat (replicate (i - n) [Sleep (500 * Millisecond), Get name ns])"
  proof -
    have "i - n = Suc (i - (n + 1))" using n by simp
    then show ?thesis by simp
  qed
  finally show ?case .
qed

lemma WaitForStatusUpdate_lvm_loop_skip:
  assumes ctx: "\<forall>h. ctxErr kc h = None"
    and get: "\<forall>h. fetches h < length recs \<longrightarrow> kcGet kc h name ns = Inr (recs ! fetches h)"
    and i: "i < length recs"
    and quiet: "\<forall>j<i. case Status (recs ! j) of None \<Rightarrow> True
                 | Some s \<Rightarrow> Phase s \<noteq> LLVStatusFailed \<and>
                     \<not> (Phase s = LLVStatusCreated \<and>
                        AreSizesEqualWithinDelta llvSize (ActualSize s) delta)"
    and "fetches h = n" and "n \<le> i"
  shows "WaitForStatusUpdate_lvm_loop kc name ns llvSize delta n h =
         WaitForStatusUpdate_lvm_loop kc name ns llvSize delta i
           (h @ concat (replicate (i - n) [Sleep (500 * Millisecond), Get name ns]))"
  using assms(5,6)
proof (induction "i - n" arbitrary: n h)
  case 0
  then show ?case by simp
next
  case (Suc m)
  then have n: "n < i" by simp
  with i Suc.prems have "fetches (h @ [Sleep (500 * Millisecond)]) < length recs"
    by (simp add: fetches_simps)
  with get Suc.prems
  have g: "kcGet kc (h @ [Sleep (500 * Millisecond)]) name ns = Inr (recs ! n)"
    by (simp add: fetches_simps)
  have q: "case Status (recs ! n) of None \<Rightarrow> True
           | Some s \<Rightarrow> Phase s \<noteq> LLVStatusFailed \<and>
               \<not> (Phase s = LLVStatusCreated \<and>
                  AreSizesEqualWithinDelta llvSize (ActualSize s) delta)"
    using quiet n by blast
  have "WaitForStatusUpdate_lvm_loop kc name ns llvSize delta n h =
        WaitForStatusUpdate_lvm_loop kc name ns llvSize delta (n + 1)
          (h @ [Sleep (500 * Millisecond), Get name ns])"
  proof (cases "Status (recs ! n)")
    case None
    then show ?thesis
      by (subst WaitForStatusUpdate_lvm_loop_step [OF ctx [rule_format] g]) simp
  next
    case (Some s)
    with q show ?thesis
      by (subst WaitForStatusUpdate_lvm_loop_step [OF ctx [rule_format] g]) auto
  qed
  also have "\<dots> =
        WaitForStatusUpdate_lvm_loop kc name ns llvSize delta i
          ((h @ [Sleep (500 * Millisecond), Get name ns]) @
             concat (replicate (i - (n + 1)) [Sleep (500 * Millisecond), Get name ns]))"
  proof (rule Suc.hyps(1))
    show "m = i - (n + 1)" using Suc.hyps(2) by simp
    show "fetches (h @ [Sleep (500 * Millisecond), Get name ns]) = n + 1"
      using Suc.prems
      by (simp add: fetches_def)
    show "n + 1 \<le> i" using n by simp
  qed
  also have "(h @ [Sleep (500 * Millisecond), Get name ns]) @
             concat (replicate (i - (n + 1)) [Sleep (500 * Millisecond), Get name ns]) =
        h @ concat (replicate (i - n) [Sleep (500 * Millisecond), Get name ns])"
  proof -
    have "i - n = Suc (i - (n + 1))" using n by simp
    then show ?thesis by simp
  qed
  finally show ?case .
qed


text \<open>
  Claim C2, as the code has it. Let the context stay live and the store answer the
  \<open>j\<close>-th \<^verbatim>\<open>Get\<close> with the record \<open>recs ! j\<close>. Let \<open>recs ! i\<close> be the first record
  that has a status and is either in phase Failed or in phase Created with
  \<open>AreSizesEqualWithinDelta\<close> true for the requested size, the actual size and the
  tolerance (every earlier record has no status or is in neither state), with no
  deletion timestamp on the records up to it in sds-local-volume-csi. Then
  \<^verbatim>\<open>WaitForStatusUpdate\<close> returns at that record, after \<open>i + 1\<close> sleeps and fetches and
  with attempt counter \<open>i + 1\<close>: the error that carries the record's \<open>Reason\<close> when the
  phase is Failed, \<^verbatim>\<open>nil\<close> otherwise. The first conjunct is sds-local-volume-csi, the
  second sds-lvm-csi.
\<close>

theorem WaitForStatusUpdate_returns_at_first_settled_record:
  "(\<forall>(kc :: client) name ns llvSize delta recs i st.
      (\<forall>h. ctxErr kc h = None) \<and>
      (\<forall>h. fetches h < length recs \<longrightarrow> kcGet kc h name ns = Inr (recs ! fetches h)) \<and>
      i < length recs \<and>
      (\<forall>j<i. case Status (recs ! j) of None \<Rightarrow> True
               | Some s \<Rightarrow> DeletionTimestamp (recs ! j) = None \<and> Phase s \<noteq> LLVStatusFailed \<and>
                   \<not> (Phase s = LLVStatusCreated \<and>
                      AreSizesEqualWithinDelta llvSize (ActualSize s) delta)) \<and>
      Status (recs ! i) = Some st \<and> DeletionTimestamp (recs ! i) = None \<and>
      (Phase st = LLVStatusFailed \<or>
       Phase st = LLVStatusCreated \<and> AreSizesEqualWithinDelta llvSize (ActualSize st) delta)
      \<longrightarrow> WaitForStatusUpdate_local kc name ns llvSize delta [] =
            Some ((i + 1,
                   if Phase st = LLVStatusFailed
                   then Some (Errorf ''failed to create LVM logical volume on node for LVMLogicalVolume %s, reason: %s''
                                [S name, S (Reason st)] None)
                   else None),
                  concat (replicate (i + 1) [Sleep (500 * Millisecond), Get name ns]))) \<and>
   (\<forall>(kc :: client) name ns llvSize delta recs i st.
      (\<forall>h. ctxErr kc h = None) \<and>
      (\<forall>h. fetches h < length recs \<longrightarrow> kcGet kc h name ns = Inr (recs ! fetches h)) \<and>
      i < length recs \<and>
      (\<forall>j<i. case Status (recs ! j) of None \<Rightarrow> True
               | Some s \<Rightarrow> Phase s \<noteq> LLVStatusFailed \<and>
                   \<not> (Phase s = LLVStatusCreated \<and>
                      AreSizesEqualWithinDelta llvSize (ActualSize s) delta)) \<and>
      Status (recs ! i) = Some st \<and>
      (Phase st = LLVStatusFailed \<or>
       Phase st = LLVStatusCreated \<and> AreSizesEqualWithinDelta llvSize (ActualSize st) delta)
      \<longrightarrow> WaitForStatusUpdate_lvm kc name ns llvSize delta [] =
            Some ((i + 1,
                   if Phase st = LLVStatusFailed
                   then Some (Errorf ''LVM Logical Volume %s failed, reason: %s''
                                [S name, S (Reason st)] None)
                   else None),
                  concat (replicate (i + 1) [Sleep (500 * Millisecond), Get name ns])))"
proof (intro conjI allI impI)
  fix kc :: client and name ns llvSize delta recs i st
  assume a: "(\<forall>h. ctxErr kc h = None) \<and>
      (\<forall>h. fetches h < length recs \<longrightarrow> kcGet kc h name ns = Inr (recs ! fetches h)) \<and>
      i < length recs \<and>
      (\<forall>j<i. case Status (recs ! j) of None \<Rightarrow> True
               | Some s \<Rightarrow> DeletionTimestamp (recs ! j) = None \<and> Phase s \<noteq> LLVStatusFailed \<and>
                   \<not> (Phase s = LLVStatusCreated \<and>
                      AreSizesEqualWithinDelta llvSize (ActualSize s) delta)) \<and>
      Status (recs ! i) = Some st \<and> DeletionTimestamp (recs ! i) = None \<and>
      (Phase st = LLVStatusFailed \<or>
       Phase st = LLVStatusCreated \<and> AreSizesEqualWithinDelta llvSize (ActualSize st) delta)"
  then have ctx: "\<forall>h. ctxErr kc h = None"
    and get: "\<forall>h. fetches h < length recs \<longrightarrow> kcGet kc h name ns = Inr (recs ! fetches h)"
    and i: "i < length recs"
    and st: "Status (recs ! i) = Some st"
    by blast+
  let ?polls = "concat (replicate i [Sleep (500 * Millisecond), Get name ns])"
  have fetched: "fetches ?polls = i"
    by (induction i) (simp_all add: fetches_def)
  have "WaitForStatusUpdate_local_loop kc name ns llvSize delta 0 [] =
        WaitForStatusUpdate_local_loop kc name ns llvSize delta i
          ([] @ concat (replicate (i - 0) [Sleep (500 * Millisecond), Get name ns]))"
    by (rule WaitForStatusUpdate_local_loop_skip [where recs = recs])
      (use a in \<open>simp_all add: fetches_def\<close>)
  then have skip: "WaitForStatusUpdate_local kc name ns llvSize delta [] =
        WaitForStatusUpdate_local_loop kc name ns llvSize delta i ?polls"
    by (simp add: WaitForStatusUpdate_local_def)
  have g: "kcGet kc (?polls @ [Sleep (500 * Millisecond)]) name ns = Inr (recs ! i)"
  proof -
    have "fetches (?polls @ [Sleep (500 * Millisecond)]) = i"
      using fetched by (simp add: fetches_def)
    with get i show ?thesis by metis
  qed
  have "WaitForStatusUpdate_local_loop kc name ns llvSize delta i ?polls =
      Some ((i + 1,
             if Phase st = LLVStatusFailed
             then Some (Errorf ''failed to create LVM logical volume on node for LVMLogicalVolume %s, reason: %s''
                          [S name, S (Reason st)] None)
             else None),
            ?polls @ [Sleep (500 * Millisecond), Get name ns])"
    using a st
    by (subst WaitForStatusUpdate_local_loop_step [OF ctx [rule_format] g]) auto
  then show "WaitForStatusUpdate_local kc name ns llvSize delta [] =
            Some ((i + 1,
                   if Phase st = LLVStatusFailed
                   then Some (Errorf ''failed to create LVM logical volume on node for LVMLogicalVolume %s, reason: %s''
                                [S name, S (Reason st)] None)
                   else None),
                  concat (replicate (i + 1) [Sleep (500 * Millisecond), Get name ns]))"
    using skip concat_replicate_Suc_right [of i "[Sleep (500 * Millisecond), Get name ns]"]
    by simp
next
  fix kc :: client and name ns llvSize delta recs i st
  assume a: "(\<forall>h. ctxErr kc h = None) \<and>
      (\<forall>h. fetches h < length recs \<longrightarrow> kcGet kc h name ns = Inr (recs ! fetches h)) \<and>
      i < length recs \<and>
      (\<forall>j<i. case Status (recs ! j) of None \<Rightarrow> True
               | Some s \<Rightarrow> Phase s \<noteq> LLVStatusFailed \<and>
                   \<not> (Phase s = LLVStatusCreated \<and>
                      AreSizesEqualWithinDelta llvSize (ActualSize s) delta)) \<and>
      Status (recs ! i) = Some st \<and>
      (Phase st = LLVStatusFailed \<or>
       Phase st = LLVStatusCreated \<and> AreSizesEqualWithinDelta llvSize (ActualSize st) delta)"
  then have ctx: "\<forall>h. ctxErr kc h = None"
    and get: "\<forall>h. fetches h < length recs \<longrightarrow> kcGet kc h name ns = Inr (recs ! fetches h)"
    and i: "i < length recs"
    and st: "Status (recs ! i) = Some st"
    by blast+
  let ?polls = "concat (replicate i [Sleep (500 * Millisecond), Get name ns])"
  have fetched: "fetches ?polls = i"
    by (induction i) (simp_all add: fetches_def)
  have "WaitForStatusUpdate_lvm_loop kc name ns llvSize delta 0 [] =
        WaitForStatusUpdate_lvm_loop kc name ns llvSize delta i
          ([] @ concat (replicate (i - 0) [Sleep (500 * Millisecond), Get name ns]))"
    by (rule WaitForStatusUpdate_lvm_loop_skip [where recs = recs])
      (use a in \<open>simp_all add: fetches_def\<close>)
  then have skip: "WaitForStatusUpdate_lvm kc name ns llvSize delta [] =
        WaitForStatusUpdate_lvm_loop kc name ns llvSize delta i ?polls"
    by (simp add: WaitForStatusUpdate_lvm_def)
  have g: "kcGet kc (?polls @ [Sleep (500 * Millisecond)]) name ns = Inr (recs ! i)"
  proof -
    have "fetches (?polls @ [Sleep (500 * Millisecond)]) = i"
      using fetched by (simp add: fetches_def)
    with get i show ?thesis by metis
  qed
  have "WaitForStatusUpdate_lvm_loop kc name ns llvSize delta i ?polls =
      Some ((i + 1,
             if Phase st = LLVStatusFailed
             then Some (Errorf ''LVM Logical Volume %s failed, reason: %s''
                          [S name, S (Reason st)] None)
             else None),
            ?polls @ [Sleep (500 * Millisecond), Get name ns])"
    using a st
    by (subst WaitForStatusUpdate_lvm_loop_step [OF ctx [rule_format] g]) auto
  then show "WaitForStatusUpdate_lvm kc name ns llvSize delta [] =
            Some ((i + 1,
                   if Phase st = LLVStatusFailed
                   then Some (Errorf ''LVM Logical Volume %s failed, reason: %s''
                                [S name, S (Reason st)] None)
                   else None),
                  concat (replicate (i + 1) [Sleep (500 * Millisecond), Get name ns]))"
    using skip concat_replicate_Suc_right [of i "[Sleep (500 * Millisecond), Get name ns]"]
    by simp
qed

text \<open>
  The theorem on the records without status, pending, created with 5Gi and created with
  10Gi, for a request of 10Gi and a tolerance of 1Gi: success with attempt counter 4;
  and on the records pending and failed: the failure at attempt 2.
\<close>

theorem WaitForStatusUpdate_returns_at_first_settled_record_witness:
  "WaitForStatusUpdate_local (polling_store recs_until_created) ''pvc-1'' ''''
     10737418240 1073741824 [] =
     Some ((4, None),
           [Sleep 500000000, Get ''pvc-1'' '''', Sleep 500000000, Get ''pvc-1'' '''',
            Sleep 500000000, Get ''pvc-1'' '''', Sleep 500000000, Get ''pvc-1'' '''']) \<and>
   WaitForStatusUpdate_lvm (polling_store recs_until_created) ''pvc-1'' ''''
     10737418240 1073741824 [] =
     Some ((4, None),
           [Sleep 500000000, Get ''pvc-1'' '''', Sleep 500000000, Get ''pvc-1'' '''',
            Sleep 500000000, Get ''pvc-1'' '''', Sleep 500000000, Get ''pvc-1'' '''']) \<and>
   WaitForStatusUpdate_local (polling_store recs_until_failed) ''pvc-1'' ''''
     10737418240 1073741824 [] =
     Some ((2,
            Some (Errorf ''failed to create LVM logical volume on node for LVMLogicalVolume %s, reason: %s''
                    [S ''pvc-1'', S ''no space left''] None)),
           [Sleep 500000000, Get ''pvc-1'' '''', Sleep 500000000, Get ''pvc-1'' '''']) \<and>
   WaitForStatusUpdate_lvm (polling_store recs_until_failed) ''pvc-1'' ''''
     10737418240 1073741824 [] =
     Some ((2,
            Some (Errorf ''LVM Logical Volume %s failed, reason: %s''
                    [S ''pvc-1'', S ''no space left''] None)),
           [Sleep 500000000, Get ''pvc-1'' '''', Sleep 500000000, Get ''pvc-1'' ''''])"
proof -
  let ?created = "\<lparr>Phase = ''Created'', Reason = '''', ActualSize = 10737418240\<rparr>"
  let ?failed = "\<lparr>Phase = ''Failed'', Reason = ''no space left'', ActualSize = 0\<rparr>"
  note defs = polling_store_def recs_until_created_def recs_until_failed_def llv_example_def
    AreSizesEqualWithinDelta_Gi_examples LLVStatusCreated_def LLVStatusFailed_def
    All_less_Suc numeral_3_eq_3 Millisecond_def
  have "WaitForStatusUpdate_local (polling_store recs_until_created) ''pvc-1'' ''''
     10737418240 1073741824 [] =
       Some ((3 + 1,
              if Phase ?created = LLVStatusFailed
              then Some (Errorf ''failed to create LVM logical volume on node for LVMLogicalVolume %s, reason: %s''
                           [S ''pvc-1'', S (Reason ?created)] None)
              else None),
             concat (replicate (3 + 1) [Sleep (500 * Millisecond), Get ''pvc-1'' '''']))"
    by (rule WaitForStatusUpdate_returns_at_first_settled_record
        [THEN conjunct1, THEN spec [where x = "polling_store recs_until_created"],
          THEN spec [where x = "''pvc-1''"], THEN spec [where x = "''''"],
          THEN spec [where x = 10737418240], THEN spec [where x = 1073741824],
          THEN spec [where x = recs_until_created], THEN spec [where x = 3],
          THEN spec [where x = "?created"], THEN mp]) (simp add: defs)
  moreover
  have "WaitForStatusUpdate_lvm (polling_store recs_until_created) ''pvc-1'' ''''
     10737418240 1073741824 [] =
       Some ((3 + 1,
              if Phase ?created = LLVStatusFailed
              then Some (Errorf ''LVM Logical Volume %s failed, reason: %s''
                           [S ''pvc-1'', S (Reason ?created)] None)
              else None),
             concat (replicate (3 + 1) [Sleep (500 * Millisecond), Get ''pvc-1'' '''']))"
    by (rule WaitForStatusUpdate_returns_at_first_settled_record
        [THEN conjunct2, THEN spec [where x = "polling_store recs_until_created"],
          THEN spec [where x = "''pvc-1''"], THEN spec [where x = "''''"],
          THEN spec [where x = 10737418240], THEN spec [where x = 1073741824],
          THEN spec [where x = recs_until_created], THEN spec [where x = 3],
          THEN spec [where x = "?created"], THEN mp]) (simp add: defs)
  moreover
  have "WaitForStatusUpdate_local (polling_store recs_until_failed) ''pvc-1'' ''''
     10737418240 1073741824 [] =
       Some ((1 + 1,
              if Phase ?failed = LLVStatusFailed
              then Some (Errorf ''failed to create LVM logical volume on node for LVMLogicalVolume %s, reason: %s''
                           [S ''pvc-1'', S (Reason ?failed)] None)
              else None),
             concat (replicate (1 + 1) [Sleep (500 * Millisecond), Get ''pvc-1'' '''']))"
    by (rule WaitForStatusUpdate_returns_at_first_settled_record
        [THEN conjunct1, THEN spec [where x = "polling_store recs_until_failed"],
          THEN spec [where x = "''pvc-1''"], THEN spec [where x = "''''"],
          THEN spec [where x = 10737418240], THEN spec [where x = 1073741824],
          THEN spec [where x = recs_until_failed], THEN spec [where x = 1],
          THEN spec [where x = "?failed"], THEN mp]) (simp add: defs)
  moreover
  have "WaitForStatusUpdate_lvm (polling_store recs_until_failed) ''pvc-1'' ''''
     10737418240 1073741824 [] =
       Some ((1 + 1,
              if Phase ?failed = LLVStatusFailed
              then Some (Errorf ''LVM Logical Volume %s failed, reason: %s''
                           [S ''pvc-1'', S (Reason ?failed)] None)
              else None),
             concat (replicate (1 + 1) [Sleep (500 * Millisecond), Get ''pvc-1'' '''']))"
    by (rule WaitForStatusUpdate_returns_at_first_settled_record
        [THEN conjunct2, THEN spec [where x = "polling_store recs_until_failed"],
          THEN spec [where x = "''pvc-1''"], THEN spec [where x = "''''"],
          THEN spec [where x = 10737418240], THEN spec [where x = 1073741824],
          THEN spec [where x = recs_until_failed], THEN spec [where x = 1],
          THEN spec [where x = "?failed"], THEN mp]) (simp add: defs)
  moreover
  have "concat (replicate 4 p) = p @ p @ p @ p" and "concat (replicate 2 p) = p @ p"
    for p :: "call list"
    by (simp_all add: numeral_eq_Suc)
  ultimately show ?thesis
    by (simp add: LLVStatusFailed_def Millisecond_def)
qed

text \<open>
  Claim C2 as stated fails in two ways. In sds-local-volume-csi a record in phase Failed
  with a deletion timestamp is answered with the being-deleted error, which does not
  carry the record's reason. And the size test is the one of \<^verbatim>\<open>float64\<close>: for a
  request of \<open>2 ^ 55 + 5\<close> bytes and a tolerance of \<open>2 ^ 55 + 6\<close>, a record created with
  size zero is within the tolerance in integer arithmetic, yet the poller goes on to
  the next record (here a failed one, at attempt 2).
\<close>

theorem WaitForStatusUpdate_first_settled_record_counterexample:
  "WaitForStatusUpdate_local (polling_store [llv_failed_deleting]) ''pvc-1'' ''''
     10737418240 1073741824 [] =
     Some ((1,
            Some (Errorf ''failed to create LVM logical volume on node for LVMLogicalVolume %s, reason: LVMLogicalVolume is being deleted''
                    [S ''pvc-1''] None)),
           [Sleep 500000000, Get ''pvc-1'' '''']) \<and>
   \<bar>0 - 36028797018963973\<bar> < (36028797018963974 :: int) \<and>
   WaitForStatusUpdate_lvm (polling_store [llv_created_empty, recs_until_failed ! 1]) ''pvc-1'' ''''
     36028797018963973 36028797018963974 [] =
     Some ((2,
            Some (Errorf ''LVM Logical Volume %s failed, reason: %s''
                    [S ''pvc-1'', S ''no space left''] None)),
           [Sleep 500000000, Get ''pvc-1'' '''', Sleep 500000000, Get ''pvc-1'' ''''])"
  by (simp add: WaitForStatusUpdate_local_def WaitForStatusUpdate_local_loop.simps
      GetLVMLogicalVolume_local_def
      WaitForStatusUpdate_lvm_def WaitForStatusUpdate_lvm_loop.simps
      GetLVMLogicalVolume_lvm_def GetLVMLogicalVolume_lvm_loop.simps
      KubernetesApiRequestLimit_def
      polling_store_def fetches_def llv_failed_deleting_def llv_created_empty_def
      recs_until_failed_def llv_example_def Millisecond_def Let_def
      AreSizesEqualWithinDelta_rounded_up_example LLVStatusCreated_def LLVStatusFailed_def)

text \<open>
  Claim C7, as the code has it. In \<^verbatim>\<open>WaitForStatusUpdate\<close> of sds-local-volume-csi, at
  any attempt: when the context is live and the fetched record has a status and a
  deletion timestamp, the call returns on that attempt with the being-deleted error,
  whatever the phase, the reason and the sizes.
\<close>

theorem WaitForStatusUpdate_local_deletion_requested:
  assumes "ctxErr kc h = None"
    and "kcGet kc (h @ [Sleep (500 * Millisecond)]) name ns = Inr llv"
    and "Status llv = Some status"
    and "DeletionTimestamp llv \<noteq> None"
  shows "WaitForStatusUpdate_local_loop kc name ns llvSize delta attemptCounter h =
     Some ((attemptCounter + 1,
            Some (Errorf ''failed to create LVM logical volume on node for LVMLogicalVolume %s, reason: LVMLogicalVolume is being deleted''
                    [S name] None)),
           h @ [Sleep (500 * Millisecond), Get name ns])"
  using assms(3,4)
  by (subst WaitForStatusUpdate_local_loop_step [OF assms(1,2)]) auto

text \<open>
  The theorem at the second attempt, on a record that is created, of the right size,
  and being deleted.
\<close>

theorem WaitForStatusUpdate_local_deletion_requested_witness:
  "WaitForStatusUpdate_local_loop
     (polling_store [recs_until_created ! 1, llv_created_deleting]) ''pvc-1'' ''''
     10737418240 1073741824 1 [Sleep 500000000, Get ''pvc-1'' ''''] =
     Some ((2,
            Some (Errorf ''failed to create LVM logical volume on node for LVMLogicalVolume %s, reason: LVMLogicalVolume is being deleted''
                    [S ''pvc-1''] None)),
           [Sleep 500000000, Get ''pvc-1'' '''', Sleep 500000000, Get ''pvc-1'' ''''])"
  using WaitForStatusUpdate_local_deletion_requested
    [of "polling_store [recs_until_created ! 1, llv_created_deleting]"
      "[Sleep 500000000, Get ''pvc-1'' '''']" "''pvc-1''" "''''" llv_created_deleting
      "\<lparr>Phase = ''Created'', Reason = '''', ActualSize = 10737418240\<rparr>"
      10737418240 1073741824 1]
  by (simp add: polling_store_def fetches_def llv_created_deleting_def llv_example_def
      Millisecond_def)

text \<open>
  Claim C7 as stated fails in two ways. \<^verbatim>\<open>WaitForStatusUpdate\<close> of sds-lvm-csi never
  reads the deletion timestamp: on a record that is created, of the right size, and
  being deleted it returns success. In sds-local-volume-csi the test is made only on a
  record with a status: a record without status that is being deleted is polled again
  (here the next record, created and not being deleted, ends the wait at attempt 2).
\<close>

theorem WaitForStatusUpdate_deletion_ignored_counterexample:
  "WaitForStatusUpdate_lvm (polling_store [llv_created_deleting]) ''pvc-1'' ''''
     10737418240 1073741824 [] =
     Some ((1, None), [Sleep 500000000, Get ''pvc-1'' '''']) \<and>
   WaitForStatusUpdate_local (polling_store [llv_unreported_deleting, llv_created]) ''pvc-1'' ''''
     10737418240 1073741824 [] =
     Some ((2, None),
           [Sleep 500000000, Get ''pvc-1'' '''', Sleep 500000000, Get ''pvc-1'' ''''])"
  by (simp add: WaitForStatusUpdate_lvm_def WaitForStatusUpdate_lvm_loop.simps
      WaitForStatusUpdate_local_def WaitForStatusUpdate_local_loop.simps
      GetLVMLogicalVolume_local_def
      GetLVMLogicalVolume_lvm_def GetLVMLogicalVolume_lvm_loop.simps
      KubernetesApiRequestLimit_def
      polling_store_def fetches_def llv_created_deleting_def llv_unreported_deleting_def
      llv_created_def llv_example_def Millisecond_def Let_def
      AreSizesEqualWithinDelta_Gi_examples LLVStatusCreated_def LLVStatusFailed_def)

end
